theory Spec2Isabelle
  imports Complex_Main
begin

section \<open>Python strings\<close>

text \<open>
  A Python \<open>str\<close> is a sequence of Unicode code points, so \<open>len\<close> counts code points.
  A text is modelled as the list of its code points. The classification of the ASCII code
  points is fixed by the language and written out below; the classification of the code
  points from 128 on comes from the Unicode database of the interpreter, which is not part
  of the repository: it is the parameter \<open>ucd\<close> of every function that classifies
  characters.
\<close>

type_synonym pystr = "nat list"

definition py :: "string \<Rightarrow> pystr" where
  "py s = map of_char s"

record ucd =
  uc_alnum :: "nat \<Rightarrow> bool"
  uc_alpha :: "nat \<Rightarrow> bool"
  uc_space :: "nat \<Rightarrow> bool"
  uc_upper :: "nat \<Rightarrow> bool"
  uc_printable :: "nat \<Rightarrow> bool"

text \<open>The database that classifies no code point beyond ASCII, for evaluation on ASCII texts.\<close>

definition ascii_db :: ucd where
  "ascii_db = \<lparr>uc_alnum = (\<lambda>c. False), uc_alpha = (\<lambda>c. False), uc_space = (\<lambda>c. False),
     uc_upper = (\<lambda>c. False), uc_printable = (\<lambda>c. False)\<rparr>"

definition isdigit_ascii :: "nat \<Rightarrow> bool" where
  "isdigit_ascii c = (48 \<le> c \<and> c \<le> 57)"

definition isupper_ascii :: "nat \<Rightarrow> bool" where
  "isupper_ascii c = (65 \<le> c \<and> c \<le> 90)"

definition islower_ascii :: "nat \<Rightarrow> bool" where
  "islower_ascii c = (97 \<le> c \<and> c \<le> 122)"

definition isalpha :: "ucd \<Rightarrow> nat \<Rightarrow> bool" where
  "isalpha u c = (if c < 128 then isupper_ascii c \<or> islower_ascii c else uc_alpha u c)"

definition isalnum :: "ucd \<Rightarrow> nat \<Rightarrow> bool" where
  "isalnum u c =
     (if c < 128 then isdigit_ascii c \<or> isupper_ascii c \<or> islower_ascii c else uc_alnum u c)"

text \<open>
  \<open>str.isspace\<close>, \<open>str.strip\<close> and the \<open>\s\<close> of \<open>re\<close> share one table: tab, line feed,
  vertical tab, form feed, carriage return, the four separators 28 to 31 and the space.
\<close>

definition isspace :: "ucd \<Rightarrow> nat \<Rightarrow> bool" where
  "isspace u c = (if c < 128 then (9 \<le> c \<and> c \<le> 13) \<or> (28 \<le> c \<and> c \<le> 32) else uc_space u c)"

definition isupper :: "ucd \<Rightarrow> nat \<Rightarrow> bool" where
  "isupper u c = (if c < 128 then isupper_ascii c else uc_upper u c)"

definition isprintable :: "ucd \<Rightarrow> nat \<Rightarrow> bool" where
  "isprintable u c = (if c < 128 then 32 \<le> c \<and> c \<le> 126 else uc_printable u c)"

definition strip :: "ucd \<Rightarrow> pystr \<Rightarrow> pystr" where
  "strip u s = rev (dropWhile (isspace u) (rev (dropWhile (isspace u) s)))"

text \<open>\<open>s.startswith(p)\<close>.\<close>

fun startswith :: "pystr \<Rightarrow> pystr \<Rightarrow> bool" where
  "startswith s [] = True"
| "startswith [] (p # ps) = False"
| "startswith (c # cs) (p # ps) = (c = p \<and> startswith cs ps)"

text \<open>\<open>needle in hay\<close> on strings: \<open>needle\<close> starts at some position of \<open>hay\<close>.\<close>

fun contains :: "pystr \<Rightarrow> pystr \<Rightarrow> bool" where
  "contains [] needle = (needle = [])"
| "contains (c # cs) needle = (startswith (c # cs) needle \<or> contains cs needle)"

text \<open>\<open>s.count(c)\<close> for a one-character string \<open>c\<close>.\<close>

definition count_char :: "pystr \<Rightarrow> nat \<Rightarrow> nat" where
  "count_char s c = length (filter (\<lambda>d. d = c) s)"

section \<open>The garbled-text heuristic\<close>

text \<open>
  \<open>is_text_garbled\<close> of \<open>pdf-text-extractor.py\<close>. The source compares with the floating-point
  products \<open>len(text) * 0.3\<close>, \<open>len(text) * 0.5\<close> and the quotient
  \<open>meaningful_chars / total_chars\<close>; the model compares the exact rationals. The two agree
  on every text a machine can hold: \<open>n * 0.5\<close> is exact, the double \<open>n * 0.3\<close> is the
  integer \<open>3n/10\<close> when 10 divides \<open>n\<close> and is otherwise further from every integer than
  its rounding error, and the correctly rounded quotient is below the double \<open>0.7\<close>
  exactly when the rational quotient is below 7/10, for lengths below \<open>10^14\<close>.
\<close>

definition uppercase_letters :: pystr where
  "uppercase_letters = py ''ABCDEFGHIJKLMNOPQRSTUVWXYZ''"

definition is_text_garbled :: "ucd \<Rightarrow> pystr \<Rightarrow> bool" where
  "is_text_garbled u text =
     (if text = [] \<or> length (strip u text) < 10 then True
      else
        let meaningful_chars =
              length (filter (\<lambda>c. isalnum u c \<or> isspace u c \<or> c \<in> set (py ''.,;:!?()-'')) text);
            total_chars = length text
        in if total_chars = 0 then True
           else
             let meaningful_ratio = (of_nat meaningful_chars / of_nat total_chars :: rat);
                 has_excessive_spaces =
                   (contains text (py ''   '') \<or>
                    (of_nat (count_char text 32) :: rat) > of_nat (length text) * (3 / 10));
                 has_random_caps =
                   ((of_nat (length (filter (isupper u) text)) :: rat) > of_nat (length text) * (5 / 10));
                 has_repeated_chars =
                   list_ex (\<lambda>char. contains text (replicate 5 char)) uppercase_letters
             in meaningful_ratio < 7 / 10 \<or> has_excessive_spaces \<or> has_random_caps \<or>
                has_repeated_chars)"


text \<open>
  The classification as the specification lists it: five conditions, each stated on whole
  numbers; the run of a letter is the longest block of consecutive occurrences.
\<close>

fun longest_run :: "nat \<Rightarrow> pystr \<Rightarrow> nat" where
  "longest_run c [] = 0"
| "longest_run c (x # xs) = max (length (takeWhile (\<lambda>d. d = c) (x # xs))) (longest_run c xs)"

definition meaningful_count :: "ucd \<Rightarrow> pystr \<Rightarrow> nat" where
  "meaningful_count u text =
     length (filter (\<lambda>c. isalnum u c \<or> isspace u c \<or> c \<in> set (py ''.,;:!?()-'')) text)"

definition garbled_as_listed :: "ucd \<Rightarrow> pystr \<Rightarrow> bool" where
  "garbled_as_listed u text =
     (length (strip u text) < 10 \<or>
      10 * meaningful_count u text < 7 * length text \<or>
      3 * length text < 10 * count_char text 32 \<or>
      length text < 2 * length (filter (isupper u) text) \<or>
      list_ex (\<lambda>c. 5 \<le> longest_run c text) uppercase_letters)"

section \<open>Regular expressions\<close>

text \<open>
  The fragment of Python's \<open>re\<close> that the two programs use, with the backtracking
  semantics of the library: a matcher lists every way a pattern matches at a position, in
  the order in which the backtracking engine tries them, and the engine takes the first.
\<close>

datatype cset = Chr nat | Range nat nat | Space | Dot | Union cset cset

fun in_cset :: "ucd \<Rightarrow> cset \<Rightarrow> nat \<Rightarrow> bool" where
  "in_cset u (Chr d) c = (c = d)"
| "in_cset u (Range lo hi) c = (lo \<le> c \<and> c \<le> hi)"
| "in_cset u Space c = isspace u c"
| "in_cset u Dot c = (c \<noteq> 10)"
| "in_cset u (Union a b) c = (in_cset u a c \<or> in_cset u b c)"

text \<open>
  \<open>Sym\<close> is one character of a class, \<open>Star\<close> the greedy \<open>*\<close>, \<open>Lazy\<close> the reluctant
  \<open>*?\<close>, \<open>AtLeast n\<close> the greedy \<open>{n,}\<close>, \<open>WordB\<close> the assertion \<open>\b\<close> and \<open>Group\<close> a
  capturing group.
\<close>

datatype item = Sym cset | Star cset | Lazy cset | AtLeast nat cset | WordB | Group item

text \<open>The prefixes of the longest run of \<open>P\<close>, longest first (greedy) or shortest first.\<close>

fun splits_greedy :: "(nat \<Rightarrow> bool) \<Rightarrow> pystr \<Rightarrow> pystr list" where
  "splits_greedy P [] = [[]]"
| "splits_greedy P (c # cs) = (if P c then map ((#) c) (splits_greedy P cs) @ [[]] else [[]])"

fun splits_lazy :: "(nat \<Rightarrow> bool) \<Rightarrow> pystr \<Rightarrow> pystr list" where
  "splits_lazy P [] = [[]]"
| "splits_lazy P (c # cs) = [] # (if P c then map ((#) c) (splits_lazy P cs) else [])"

text \<open>\<open>\w\<close> is an alphanumeric character or the underscore; no character is not a word character.\<close>

definition is_word :: "ucd \<Rightarrow> nat option \<Rightarrow> bool" where
  "is_word u x = (case x of None \<Rightarrow> False | Some c \<Rightarrow> isalnum u c \<or> c = 95)"

definition first_char :: "pystr \<Rightarrow> nat option" where
  "first_char s = (case s of [] \<Rightarrow> None | c # r \<Rightarrow> Some c)"

text \<open>
  A match is the text it consumes together with the texts of its groups; \<open>prev\<close> is the
  character before the position, which \<open>\b\<close> looks at.
\<close>

fun m_item :: "ucd \<Rightarrow> item \<Rightarrow> nat option \<Rightarrow> pystr \<Rightarrow> (pystr \<times> pystr list) list" where
  "m_item u (Sym cs) prev s =
     (case s of [] \<Rightarrow> [] | c # r \<Rightarrow> if in_cset u cs c then [([c], [])] else [])"
| "m_item u (Star cs) prev s = map (\<lambda>a. (a, [])) (splits_greedy (in_cset u cs) s)"
| "m_item u (Lazy cs) prev s = map (\<lambda>a. (a, [])) (splits_lazy (in_cset u cs) s)"
| "m_item u (AtLeast n cs) prev s =
     map (\<lambda>a. (a, [])) (filter (\<lambda>a. n \<le> length a) (splits_greedy (in_cset u cs) s))"
| "m_item u WordB prev s =
     (if is_word u prev \<noteq> is_word u (first_char s) then [([], [])] else [])"
| "m_item u (Group i) prev s = map (\<lambda>(a, caps). (a, a # caps)) (m_item u i prev s)"

definition prev_after :: "nat option \<Rightarrow> pystr \<Rightarrow> nat option" where
  "prev_after prev a = (if a = [] then prev else Some (last a))"

fun m_seq :: "ucd \<Rightarrow> item list \<Rightarrow> nat option \<Rightarrow> pystr \<Rightarrow> (pystr \<times> pystr list) list" where
  "m_seq u [] prev s = [([], [])]"
| "m_seq u (i # rest) prev s =
     concat (map (\<lambda>(a, caps).
               map (\<lambda>(b, caps'). (a @ b, caps @ caps'))
                   (m_seq u rest (prev_after prev a) (drop (length a) s)))
             (m_item u i prev s))"

text \<open>
  A replacement template: literal text and group references \<open>\1\<close>, \<open>\2\<close>. The templates
  of the source refer only to groups that their pattern has.
\<close>

datatype tpart = Lit pystr | Ref nat

fun expand :: "tpart list \<Rightarrow> pystr list \<Rightarrow> pystr" where
  "expand [] caps = []"
| "expand (Lit l # t) caps = l @ expand t caps"
| "expand (Ref k # t) caps = (if 0 < k \<and> k \<le> length caps then caps ! (k - 1) else []) @ expand t caps"

text \<open>
  \<open>re.sub\<close>: scan from the left; where the pattern matches, emit the expanded template
  and go on behind the match; elsewhere copy the character.
\<close>

function re_sub_from :: "ucd \<Rightarrow> item list \<Rightarrow> tpart list \<Rightarrow> nat option \<Rightarrow> pystr \<Rightarrow> pystr" where
  "re_sub_from u p t prev [] =
     (case m_seq u p prev [] of [] \<Rightarrow> [] | m # ms \<Rightarrow> expand t (snd m))"
| "re_sub_from u p t prev (c # cs) =
     (case m_seq u p prev (c # cs) of
        [] \<Rightarrow> c # re_sub_from u p t (Some c) cs
      | m # ms \<Rightarrow>
          if fst m = [] then expand t (snd m) @ c # re_sub_from u p t (Some c) cs
          else expand t (snd m) @
               re_sub_from u p t (Some (last (fst m))) (drop (length (fst m)) (c # cs)))"
  by pat_completeness auto
termination
  by (relation "measure (\<lambda>(u, p, t, prev, s). length s)") auto

definition re_sub :: "ucd \<Rightarrow> item list \<Rightarrow> tpart list \<Rightarrow> pystr \<Rightarrow> pystr" where
  "re_sub u p t s = re_sub_from u p t None s"

text \<open>\<open>s.replace(old, new)\<close>: the occurrences of \<open>old\<close> from the left, not overlapping.\<close>

function replace_str :: "pystr \<Rightarrow> pystr \<Rightarrow> pystr \<Rightarrow> pystr" where
  "replace_str [] old new = (if old = [] then new else [])"
| "replace_str (c # cs) old new =
     (if old = [] then new @ c # replace_str cs old new
      else if startswith (c # cs) old then new @ replace_str (drop (length old) (c # cs)) old new
      else c # replace_str cs old new)"
  by pat_completeness auto
termination
  by (relation "measure (\<lambda>(s, old, new). length s)") auto

section \<open>The text post-processor\<close>

text \<open>The four patterns of \<open>post_process_extracted_text\<close>, and the word pattern of its table.\<close>

definition lower :: cset where
  "lower = Range 97 122"

definition pat_hyphen :: "item list" where
  "pat_hyphen = [Group (Sym lower), Sym (Chr 45), Star Space, Sym (Chr 10), Star Space,
                 Group (Sym lower)]"

definition pat_split :: "item list" where
  "pat_split = [Group (Sym lower), Star Space, Sym (Chr 10), Star Space, Group (Sym lower)]"

definition pat_sentence :: "item list" where
  "pat_sentence = [Group (Sym (Union lower (Chr 44))), Star Space, Sym (Chr 10), Star Space,
                   Group (Sym lower)]"

definition pat_breaks :: "item list" where
  "pat_breaks = [AtLeast 3 (Chr 10)]"

text \<open>
  The table \<open>ocr_fixes\<close> in insertion order. For each entry the source builds the pattern
  text \<open>\b\<close> + \<open>re.escape(wrong)\<close> + \<open>\b\<close>; the keys are alphanumeric, which
  \<open>re.escape\<close> leaves alone. The same text is used twice: as a string on the left of
  \<open>in\<close>, and as a regular expression in \<open>re.sub\<close>, where it reads
  boundary, the letters of the key, boundary.
\<close>

definition ocr_fixes :: "(pystr \<times> pystr) list" where
  "ocr_fixes = [(py ''rn'', py ''m''), (py ''vv'', py ''w''), (py ''0'', py ''O''), (py ''1'', py ''l'')]"

definition pattern_text :: "pystr \<Rightarrow> pystr" where
  "pattern_text wrong = [92, 98] @ wrong @ [92, 98]"

definition pattern_re :: "pystr \<Rightarrow> item list" where
  "pattern_re wrong = [WordB] @ map (\<lambda>c. Sym (Chr c)) wrong @ [WordB]"

definition apply_fix :: "ucd \<Rightarrow> pystr \<times> pystr \<Rightarrow> pystr \<Rightarrow> pystr" where
  "apply_fix u fix cleaned =
     (let wrong = fst fix; correct = snd fix; pattern = pattern_text wrong
      in if wrong \<in> set [py ''rn'', py ''vv''] \<and> contains cleaned pattern
         then re_sub u (pattern_re wrong) [Lit correct] cleaned
         else cleaned)"

definition post_process_extracted_text :: "ucd \<Rightarrow> pystr \<Rightarrow> pystr" where
  "post_process_extracted_text u text =
     (if text = [] then text
      else
        let cleaned = text;
            cleaned = replace_str cleaned (py ''  '') (py '' '');
            cleaned = replace_str cleaned [32, 10] [10];
            cleaned = replace_str cleaned [10, 32] [10];
            cleaned = re_sub u pat_hyphen [Ref 1, Ref 2] cleaned;
            cleaned = re_sub u pat_split [Ref 1, Ref 2] cleaned;
            cleaned = re_sub u pat_sentence [Ref 1, Lit (py '' ''), Ref 2] cleaned;
            cleaned = re_sub u pat_breaks [Lit [10, 10]] cleaned;
            cleaned = fold (apply_fix u) ocr_fixes cleaned
        in strip u cleaned)"


section \<open>Results and the outside world\<close>

text \<open>
  The result dictionaries, before \<open>json.dumps\<close> writes them out: the entries of an
  object in the order of the source.
\<close>

datatype json = JStr pystr | JBool bool | JInt int | JList "json list" | JObj "(string \<times> json) list"


definition field :: "json \<Rightarrow> string \<Rightarrow> json option" where
  "field j k = (case j of JObj kvs \<Rightarrow> map_of kvs k | _ \<Rightarrow> None)"

text \<open>
  An exception: its class and the message that \<open>str(e)\<close> gives. The exceptions of the model
  are those of class \<open>Exception\<close> and its subclasses, the ones that \<open>except Exception\<close>
  catches.
\<close>

datatype pyexn = PyExn string pystr

fun str_exn :: "pyexn \<Rightarrow> pystr" where
  "str_exn (PyExn cls msg) = msg"

text \<open>
  What PyPDF2 makes of a file: the number of pages it reports, the outcome of
  \<open>extract_text\<close> on each page that the iteration yields (an exception, \<open>None\<close> or a
  text), and the exception that ends the iteration early, if one does.
\<close>

record reader =
  num_pages :: nat
  page_texts :: "(pyexn + pystr option) list"
  iter_error :: "pyexn option"

text \<open>What the multilingual library returns: a list of pages, a string, or another object.\<close>

datatype ml_page = PageDict "pystr option" | PageStr pystr | PageOther

datatype ml_content = ContentList "ml_page list" | ContentStr pystr | ContentOther pystr

datatype ocr_config = Psm6_whitelist | Psm3

text \<open>
  An \<open>import\<close>: the module is there, or the statement raises \<open>ImportError\<close> (or its
  subclass \<open>ModuleNotFoundError\<close>), or it raises another exception.
\<close>

datatype import_outcome = Imported | ImportError | ImportCrash pyexn

text \<open>A call into a library, as the standalone script makes them.\<close>

datatype library_call =
  OcrImports | ConvertFromPath pystr | MultilingualExtract pystr pystr | ImportPyPDF2 | PdfReader pystr

text \<open>
  The file system and the libraries are not part of the repository; each call into them is
  a field of \<open>world\<close>, returning a value or the exception it raises. A page image is a
  number. \<open>repr_list\<close> is the text that an f-string makes of a list of strings.
  \<open>import_module\<close> is \<open>__import__\<close> during the set-up of the script, \<open>import_pypdf2\<close> the statement
  \<open>import PyPDF2\<close> of the two extraction functions. \<open>pip_output\<close> is what \<open>pip\<close> writes on the
  standard output, which it shares with the script, and \<open>stdout_encodable\<close> tells which code
  points from 128 on the encoding of the standard output has; it has all of ASCII.
\<close>

record world =
  os_path_exists :: "pystr \<Rightarrow> bool"
  glob_glob :: "pystr \<Rightarrow> pyexn + pystr list"
  os_stat_size :: "pystr \<Rightarrow> pyexn + nat"
  read_bytes :: "pystr \<Rightarrow> pyexn + nat list"
  import_pypdf2 :: import_outcome
  pypdf2_reader :: "pystr \<Rightarrow> pyexn + reader"
  ocr_imports :: "pyexn option"
  convert_from_path :: "pystr \<Rightarrow> pyexn + nat list"
  cv2_pipeline :: "nat \<Rightarrow> pyexn + nat"
  image_to_string :: "nat \<Rightarrow> pystr \<Rightarrow> ocr_config \<Rightarrow> pyexn + pystr"
  multilingual_extract :: "pystr \<Rightarrow> pystr \<Rightarrow> pyexn + ml_content"
  import_module :: "string \<Rightarrow> import_outcome"
  pip_install :: "string \<Rightarrow> bool"
  pip_output :: "string \<Rightarrow> pystr"
  stdout_encodable :: "nat \<Rightarrow> bool"
  repr_list :: "pystr list \<Rightarrow> pystr"

text \<open>\<open>os.path.basename\<close>: what follows the last slash.\<close>

definition basename :: "pystr \<Rightarrow> pystr" where
  "basename p = rev (takeWhile (\<lambda>c. c \<noteq> 47) (rev p))"

text \<open>\<open>os.path.basename(pdf_path) if pdf_path else 'unknown'\<close>; \<open>None\<close> and the empty string are false.\<close>

definition filename_or_unknown :: "pystr option \<Rightarrow> pystr" where
  "filename_or_unknown pdf_path =
     (case pdf_path of None \<Rightarrow> py ''unknown''
      | Some p \<Rightarrow> if p = [] then py ''unknown'' else basename p)"

text \<open>\<open>os.path.exists(None)\<close> raises.\<close>

definition exists_type_error :: pyexn where
  "exists_type_error =
     PyExn ''TypeError''
       (py ''stat: path should be string, bytes, os.PathLike or integer, not NoneType'')"

section \<open>The standalone script\<close>

subsection \<open>Enhanced OCR\<close>

definition preprocess_image_for_ocr :: "world \<Rightarrow> nat \<Rightarrow> nat" where
  "preprocess_image_for_ocr w img =
     (case cv2_pipeline w img of Inl e \<Rightarrow> img | Inr processed \<Rightarrow> processed)"

text \<open>One page of the loop: the text to append, or \<open>None\<close> when the page raised and is skipped.\<close>

definition ocr_page :: "world \<Rightarrow> ucd \<Rightarrow> pystr \<Rightarrow> nat \<Rightarrow> pystr option" where
  "ocr_page w u language img =
     (let processed_image = preprocess_image_for_ocr w img
      in case image_to_string w processed_image language Psm6_whitelist of
           Inl e \<Rightarrow> None
         | Inr page_text \<Rightarrow>
             if is_text_garbled u page_text then
               (case image_to_string w processed_image language Psm3 of
                  Inl e \<Rightarrow> None
                | Inr page_text_alt \<Rightarrow>
                    if length page_text_alt > length page_text \<and> \<not> is_text_garbled u page_text_alt
                    then Some page_text_alt else Some page_text)
             else Some page_text)"

fun ocr_pages :: "world \<Rightarrow> ucd \<Rightarrow> pystr \<Rightarrow> nat list \<Rightarrow> pystr \<Rightarrow> pystr" where
  "ocr_pages w u language [] extracted_text = extracted_text"
| "ocr_pages w u language (img # images) extracted_text =
     (case ocr_page w u language img of
        None \<Rightarrow> ocr_pages w u language images extracted_text
      | Some page_text \<Rightarrow> ocr_pages w u language images (extracted_text @ page_text @ [10, 10]))"

text \<open>
  The function returns its text or raises; with it the model gives the calls the function
  made to import its libraries and to open the file.
\<close>

definition extract_with_enhanced_ocr ::
    "world \<Rightarrow> ucd \<Rightarrow> pystr \<Rightarrow> pystr \<Rightarrow> library_call list \<times> (pyexn + pystr)" where
  "extract_with_enhanced_ocr w u pdf_path language =
     (case ocr_imports w of
        Some e \<Rightarrow> ([OcrImports], Inl e)
      | None \<Rightarrow>
          (case convert_from_path w pdf_path of
             Inl e \<Rightarrow> ([OcrImports, ConvertFromPath pdf_path], Inl e)
           | Inr images \<Rightarrow>
               ([OcrImports, ConvertFromPath pdf_path],
                Inr (strip u (ocr_pages w u language images [])))))"

subsection \<open>The cascade\<close>

text \<open>
  The two local variables that both programs keep, \<open>extracted_text\<close> and
  \<open>extraction_method\<close>; for the cascade also the calls into the libraries that the
  strategies have made so far, in order.
\<close>

record text_vars =
  extracted_text :: pystr
  extraction_method :: pystr

record cascade_state = text_vars +
  calls :: "library_call list"

definition method1 :: "world \<Rightarrow> ucd \<Rightarrow> pystr \<Rightarrow> pystr \<Rightarrow> cascade_state" where
  "method1 w u pdf_path language =
     (case extract_with_enhanced_ocr w u pdf_path language of
        (cs, Inr t) \<Rightarrow> \<lparr>extracted_text = t, extraction_method = py ''enhanced_ocr'', calls = cs\<rparr>
      | (cs, Inl e) \<Rightarrow> \<lparr>extracted_text = [], extraction_method = py ''none'', calls = cs\<rparr>)"

fun page_piece :: "ml_page \<Rightarrow> pystr" where
  "page_piece (PageDict (Some t)) = t @ [10, 10]"
| "page_piece (PageDict None) = []"
| "page_piece (PageStr s) = s @ [10, 10]"
| "page_piece PageOther = []"

fun content_text :: "ucd \<Rightarrow> ml_content \<Rightarrow> pystr" where
  "content_text u (ContentList pages) = strip u (concat (map page_piece pages))"
| "content_text u (ContentStr s) = s"
| "content_text u (ContentOther s) = s"

text \<open>
  The second \<open>try\<close> block up to the value of \<open>content\<close>: the imports, the two constructors
  and \<open>extract\<close> are one call into the library.
\<close>

definition multilingual_pdf2text ::
    "world \<Rightarrow> ucd \<Rightarrow> pystr \<Rightarrow> pystr \<Rightarrow> library_call list \<times> (pyexn + pystr)" where
  "multilingual_pdf2text w u pdf_path language =
     ([MultilingualExtract pdf_path language],
      case multilingual_extract w pdf_path language of
        Inl e \<Rightarrow> Inl e
      | Inr c \<Rightarrow> Inr (content_text u c))"

definition method2 :: "world \<Rightarrow> ucd \<Rightarrow> pystr \<Rightarrow> pystr \<Rightarrow> cascade_state \<Rightarrow> cascade_state" where
  "method2 w u pdf_path language st =
     (if extracted_text st = [] \<or> length (strip u (extracted_text st)) < 100 then
        (case multilingual_pdf2text w u pdf_path language of
           (cs, Inl e) \<Rightarrow> st\<lparr>calls := calls st @ cs\<rparr>
         | (cs, Inr content) \<Rightarrow>
             if length (strip u content) > length (strip u (extracted_text st))
             then st\<lparr>extracted_text := content,
                     extraction_method := py ''multilingual_pdf2text'',
                     calls := calls st @ cs\<rparr>
             else st\<lparr>calls := calls st @ cs\<rparr>)
      else st)"

text \<open>
  The loop of the last strategy has no handler of its own: a page that raises, or that
  returns \<open>None\<close> (which cannot be added to a string), ends the strategy.
\<close>

fun basic_text_of :: "(pyexn + pystr option) list \<Rightarrow> pystr option" where
  "basic_text_of [] = Some []"
| "basic_text_of (Inl e # ps) = None"
| "basic_text_of (Inr None # ps) = None"
| "basic_text_of (Inr (Some t) # ps) =
     (case basic_text_of ps of None \<Rightarrow> None | Some rest \<Rightarrow> Some (t @ [10, 10] @ rest))"

text \<open>
  The third \<open>try\<close> block up to the value of \<open>basic_text\<close>, \<open>None\<close> when it raises: the
  import, then the reader on the opened file.
\<close>

definition pypdf2_basic :: "world \<Rightarrow> pystr \<Rightarrow> library_call list \<times> pystr option" where
  "pypdf2_basic w pdf_path =
     (case import_pypdf2 w of
        Imported \<Rightarrow>
          ([ImportPyPDF2, PdfReader pdf_path],
           case pypdf2_reader w pdf_path of
             Inl e \<Rightarrow> None
           | Inr r \<Rightarrow>
               (case basic_text_of (page_texts r) of
                  None \<Rightarrow> None
                | Some basic_text \<Rightarrow> if iter_error r = None then Some basic_text else None))
      | ImportError \<Rightarrow> ([ImportPyPDF2], None)
      | ImportCrash e \<Rightarrow> ([ImportPyPDF2], None))"

definition method3 :: "world \<Rightarrow> ucd \<Rightarrow> pystr \<Rightarrow> cascade_state \<Rightarrow> cascade_state" where
  "method3 w u pdf_path st =
     (if extracted_text st = [] \<or> length (strip u (extracted_text st)) < 50 then
        (case pypdf2_basic w pdf_path of
           (cs, None) \<Rightarrow> st\<lparr>calls := calls st @ cs\<rparr>
         | (cs, Some basic_text) \<Rightarrow>
             if length (strip u basic_text) > length (strip u (extracted_text st))
             then st\<lparr>extracted_text := basic_text, extraction_method := py ''pypdf2'',
                     calls := calls st @ cs\<rparr>
             else st\<lparr>calls := calls st @ cs\<rparr>)
      else st)"

definition cascade :: "world \<Rightarrow> ucd \<Rightarrow> pystr \<Rightarrow> pystr \<Rightarrow> cascade_state" where
  "cascade w u pdf_path language =
     method3 w u pdf_path (method2 w u pdf_path language (method1 w u pdf_path language))"


subsection \<open>The entry point and the command line\<close>

text \<open>
  The body of the \<open>try\<close> of \<open>extract_text_from_pdf\<close>: the result, or the exception
  that reaches the handler.
\<close>

definition extract_text_from_pdf_body :: "world \<Rightarrow> ucd \<Rightarrow> pystr option \<Rightarrow> pystr \<Rightarrow> pyexn + json" where
  "extract_text_from_pdf_body w u pdf_path language =
     (case pdf_path of
        None \<Rightarrow> Inl exists_type_error
      | Some p \<Rightarrow>
          if \<not> os_path_exists w p
          then Inl (PyExn ''FileNotFoundError'' (py ''PDF file not found: '' @ p))
          else
            let st = cascade w u p language;
                text = (if extracted_text st \<noteq> []
                        then post_process_extracted_text u (extracted_text st)
                        else extracted_text st)
            in case os_stat_size w p of
                 Inl e \<Rightarrow> Inl e
               | Inr file_size \<Rightarrow>
                   Inr (JObj [(''success'', JBool True),
                              (''text'', JStr text),
                              (''metadata'', JObj [(''filename'', JStr (basename p)),
                                                   (''file_size'', JInt (int file_size)),
                                                   (''language'', JStr language),
                                                   (''extraction_method'', JStr (extraction_method st)),
                                                   (''text_length'', JInt (int (length text)))])]))"

text \<open>The function: \<open>Inr\<close> is what it returns, \<open>Inl\<close> an exception that leaves it.\<close>

definition extract_text_from_pdf :: "world \<Rightarrow> ucd \<Rightarrow> pystr option \<Rightarrow> pystr \<Rightarrow> pyexn + json" where
  "extract_text_from_pdf w u pdf_path language =
     (case extract_text_from_pdf_body w u pdf_path language of
        Inr result \<Rightarrow> Inr result
      | Inl e \<Rightarrow>
          Inr (JObj [(''success'', JBool False),
                     (''error'', JStr (str_exn e)),
                     (''text'', JStr []),
                     (''metadata'', JObj [(''filename'', JStr (filename_or_unknown pdf_path)),
                                          (''file_size'', JInt 0),
                                          (''language'', JStr language),
                                          (''extraction_method'', JStr (py ''failed''))])]))"

definition packages :: "string list" where
  "packages = [''multilingual-pdf2text'', ''Pillow'', ''pytesseract'', ''opencv-python'',
               ''pdf2image'', ''PyPDF2'']"

definition module_of :: "string \<Rightarrow> string" where
  "module_of package =
     (if package = ''opencv-python'' then ''cv2''
      else if package = ''pdf2image'' then ''pdf2image''
      else if package = ''pytesseract'' then ''pytesseract''
      else if package = ''Pillow'' then ''PIL''
      else if package = ''PyPDF2'' then ''PyPDF2''
      else map (\<lambda>c. if c = CHR ''-'' then CHR ''_'' else c) package)"

text \<open>
  What is written on the standard output: a text of \<open>pip\<close>, or a result that the script
  prints with \<open>json.dumps\<close>.
\<close>

datatype stdout_item = PipOutput pystr | Json json

text \<open>
  The loop of \<open>install_required_packages\<close>: only an \<open>ImportError\<close> leads to \<open>pip\<close>; any
  other exception, and a failing \<open>pip\<close>, reach the outer handler, which returns \<open>False\<close>.
  With the value of the function the model gives what \<open>pip\<close> wrote.
\<close>

fun install_loop :: "world \<Rightarrow> string list \<Rightarrow> stdout_item list \<times> bool" where
  "install_loop w [] = ([], True)"
| "install_loop w (package # rest) =
     (case import_module w (module_of package) of
        Imported \<Rightarrow> install_loop w rest
      | ImportError \<Rightarrow>
          if pip_install w package
          then (PipOutput (pip_output w package) # fst (install_loop w rest),
                snd (install_loop w rest))
          else ([PipOutput (pip_output w package)], False)
      | ImportCrash e \<Rightarrow> ([], False))"









section \<open>The embedded module\<close>

subsection \<open>Finding the file\<close>

text \<open>Every call of \<open>os.path.exists\<close> and of \<open>glob.glob\<close>, in the order of the calls.\<close>

datatype probe = ExistsProbe pystr | GlobProbe pystr

datatype resolution = Found pystr | NotFound "pystr list"

definition possible_paths_of :: "pystr \<Rightarrow> pystr list" where
  "possible_paths_of pdf_path =
     [pdf_path,
      py ''/android_asset/'' @ basename pdf_path,
      py ''/data/data/com.chatwithpdf/assets/'' @ basename pdf_path,
      py ''/data/data/com.chatwithpdf/files/'' @ basename pdf_path,
      py ''/storage/emulated/0/Download/'' @ basename pdf_path,
      py ''/sdcard/Download/'' @ basename pdf_path,
      basename pdf_path]"

definition search_patterns_of :: "pystr \<Rightarrow> pystr list" where
  "search_patterns_of base_name =
     [py ''/**/'' @ base_name,
      py ''/data/**/'' @ base_name,
      py ''/storage/**/'' @ base_name,
      py ''/android_asset/**/'' @ base_name]"

text \<open>The two loops, each left at its first hit; \<open>found_path\<close> is \<open>None\<close> until then.\<close>

fun first_existing :: "world \<Rightarrow> pystr list \<Rightarrow> probe list \<times> pystr option" where
  "first_existing w [] = ([], None)"
| "first_existing w (path # rest) =
     (if os_path_exists w path then ([ExistsProbe path], Some path)
      else (ExistsProbe path # fst (first_existing w rest), snd (first_existing w rest)))"

fun first_glob :: "world \<Rightarrow> pystr list \<Rightarrow> pystr option \<Rightarrow> probe list \<times> pystr option" where
  "first_glob w [] found_path = ([], found_path)"
| "first_glob w (pattern # rest) found_path =
     (case glob_glob w pattern of
        Inl e \<Rightarrow> (GlobProbe pattern # fst (first_glob w rest found_path),
                  snd (first_glob w rest found_path))
      | Inr matches \<Rightarrow>
          (case matches of
             [] \<Rightarrow> (GlobProbe pattern # fst (first_glob w rest found_path),
                    snd (first_glob w rest found_path))
           | m # ms \<Rightarrow> ([GlobProbe pattern], Some m)))"

text \<open>\<open>not found_path\<close>: \<open>None\<close> and the empty string are false.\<close>

definition falsy :: "pystr option \<Rightarrow> bool" where
  "falsy x = (case x of None \<Rightarrow> True | Some s \<Rightarrow> s = [])"

definition resolve_path :: "world \<Rightarrow> pystr \<Rightarrow> probe list \<times> resolution" where
  "resolve_path w pdf_path =
     (if \<not> os_path_exists w pdf_path then
        (let possible_paths = possible_paths_of pdf_path;
             loop1 = first_existing w possible_paths;
             loop2 = (if falsy (snd loop1)
                      then first_glob w (search_patterns_of (basename pdf_path)) (snd loop1)
                      else ([], snd loop1));
             probes = ExistsProbe pdf_path # fst loop1 @ fst loop2
         in case snd loop2 of
              None \<Rightarrow> (probes, NotFound possible_paths)
            | Some found_path \<Rightarrow>
                if found_path = [] then (probes, NotFound possible_paths)
                else (probes, Found found_path))
      else ([ExistsProbe pdf_path], Found pdf_path))"

subsection \<open>Extraction\<close>

record locals = text_vars +
  err :: pystr
  page_count :: "nat option"
  pypdf2_available :: bool

text \<open>The page loop of the PyPDF2 branch: a page that raises is skipped, an empty text adds nothing.\<close>

fun add_pages :: "(pyexn + pystr option) list \<Rightarrow> pystr \<Rightarrow> pystr" where
  "add_pages [] t = t"
| "add_pages (Inl e # ps) t = add_pages ps t"
| "add_pages (Inr None # ps) t = add_pages ps t"
| "add_pages (Inr (Some page_text) # ps) t =
     add_pages ps (if page_text \<noteq> [] then t @ page_text @ [10, 10] else t)"

definition pypdf2_error :: "pyexn \<Rightarrow> pystr" where
  "pypdf2_error e = [10, 10, 10, 10] @ py ''; PyPDF2 error: '' @ str_exn e"

definition pypdf2_step :: "world \<Rightarrow> pystr \<Rightarrow> locals \<Rightarrow> locals" where
  "pypdf2_step w pdf_path l =
     (if pypdf2_available l then
        (case pypdf2_reader w pdf_path of
           Inl e \<Rightarrow> l\<lparr>err := err l @ pypdf2_error e, pypdf2_available := False\<rparr>
         | Inr r \<Rightarrow>
             (let l = l\<lparr>extracted_text := add_pages (page_texts r) (extracted_text l),
                        page_count := Some (num_pages r)\<rparr>
              in case iter_error r of
                   None \<Rightarrow> l\<lparr>extraction_method := py ''pypdf2''\<rparr>
                 | Some e \<Rightarrow> l\<lparr>err := err l @ pypdf2_error e, pypdf2_available := False\<rparr>))
      else l)"

text \<open>The raw scan of the bytes. Latin-1 decodes every byte to the code point of its value.\<close>

definition pat_paren :: "item list" where
  "pat_paren = [Sym (Chr 40), Group (Lazy Dot), Sym (Chr 41)]"

definition group1 :: "pystr \<times> pystr list \<Rightarrow> pystr" where
  "group1 m = (case snd m of [] \<Rightarrow> fst m | g # gs \<Rightarrow> g)"

function re_findall_from :: "ucd \<Rightarrow> item list \<Rightarrow> nat option \<Rightarrow> pystr \<Rightarrow> pystr list" where
  "re_findall_from u p prev [] =
     (case m_seq u p prev [] of [] \<Rightarrow> [] | m # ms \<Rightarrow> [group1 m])"
| "re_findall_from u p prev (c # cs) =
     (case m_seq u p prev (c # cs) of
        [] \<Rightarrow> re_findall_from u p (Some c) cs
      | m # ms \<Rightarrow>
          if fst m = [] then group1 m # re_findall_from u p (Some c) cs
          else group1 m #
               re_findall_from u p (Some (last (fst m))) (drop (length (fst m)) (c # cs)))"
  by pat_completeness auto
termination
  by (relation "measure (\<lambda>(u, p, prev, s). length s)") auto

definition re_findall :: "ucd \<Rightarrow> item list \<Rightarrow> pystr \<Rightarrow> pystr list" where
  "re_findall u p s = re_findall_from u p None s"

text \<open>\<open>s.count(sub)\<close>: occurrences from the left, not overlapping.\<close>

function count_sub :: "pystr \<Rightarrow> pystr \<Rightarrow> nat" where
  "count_sub [] sub = (if sub = [] then 1 else 0)"
| "count_sub (c # cs) sub =
     (if sub = [] then Suc (count_sub cs sub)
      else if startswith (c # cs) sub then Suc (count_sub (drop (length sub) (c # cs)) sub)
      else count_sub cs sub)"
  by pat_completeness auto
termination
  by (relation "measure (\<lambda>(s, sub). length s)") auto

text \<open>The decimal digits of a number, as an f-string writes it.\<close>

function str_nat :: "nat \<Rightarrow> pystr" where
  "str_nat n = (if n < 10 then [48 + n] else str_nat (n div 10) @ [48 + n mod 10])"
  by pat_completeness auto
termination
  by (relation "measure (\<lambda>n. n)") auto

declare str_nat.simps [simp del]

fun join :: "pystr \<Rightarrow> pystr list \<Rightarrow> pystr" where
  "join sep [] = []"
| "join sep [x] = x"
| "join sep (x # y # ys) = x @ sep @ join sep (y # ys)"

definition readable_fragment :: "ucd \<Rightarrow> pystr \<Rightarrow> pystr option" where
  "readable_fragment u pattern =
     (if length pattern > 3 \<and> list_ex (isalpha u) pattern then
        (let clean_text = filter (\<lambda>c. isprintable u c \<or> isspace u c) pattern
         in if strip u clean_text \<noteq> [] then Some (strip u clean_text) else None)
      else None)"

definition invalid_pdf :: pyexn where
  "invalid_pdf = PyExn ''Exception'' (py ''File does not appear to be a valid PDF'')"

text \<open>The body of the inner \<open>try\<close>, from the bytes on: text, method and page count.\<close>

definition fallback_scan :: "ucd \<Rightarrow> nat list \<Rightarrow> pyexn + (pystr \<times> pystr \<times> nat)" where
  "fallback_scan u content =
     (if \<not> startswith content (py ''%PDF-'') then Inl invalid_pdf
      else
        let content_str = content;
            text_patterns = re_findall u pat_paren content_str;
            readable_text = List.map_filter (readable_fragment u) text_patterns;
            n = count_sub content_str (py ''/Type/Page'')
        in Inr (if readable_text \<noteq> []
                then (join [10] (take 50 readable_text), py ''basic_text_extraction'',
                      if n = 0 then 1 else n)
                else (py ''PDF file detected (size: '' @ str_nat (length content) @
                        py '' bytes). Text extraction requires PyPDF2 library.'',
                      py ''file_info_only'',
                      if n = 0 then 1 else n)))"

definition fallback_step :: "world \<Rightarrow> ucd \<Rightarrow> pystr \<Rightarrow> locals \<Rightarrow> locals" where
  "fallback_step w u pdf_path l =
     (if \<not> pypdf2_available l \<and> extracted_text l = [] then
        (case (case read_bytes w pdf_path of Inl e \<Rightarrow> Inl e | Inr content \<Rightarrow> fallback_scan u content) of
           Inr (t, m, n) \<Rightarrow> l\<lparr>extracted_text := t, extraction_method := m, page_count := Some n\<rparr>
         | Inl e \<Rightarrow>
             l\<lparr>extracted_text := py ''PDF file exists but could not be processed: '' @ str_exn e,
               extraction_method := py ''failed'',
               page_count := Some 0\<rparr>)
      else l)"


subsection \<open>The entry point\<close>

definition unbound_page_count :: pyexn where
  "unbound_page_count =
     PyExn ''UnboundLocalError''
       (py ''cannot access local variable page_count where it is not associated with a value'')"

definition not_found_result :: "world \<Rightarrow> pystr \<Rightarrow> pystr list \<Rightarrow> pystr \<Rightarrow> json" where
  "not_found_result w pdf_path possible_paths language =
     JObj [(''success'', JBool False),
           (''error'', JStr (py ''PDF file not found. Tried paths: '' @ repr_list w possible_paths)),
           (''text'', JStr []),
           (''metadata'', JObj [(''filename'', JStr (filename_or_unknown (Some pdf_path))),
                                (''file_size'', JInt 0),
                                (''language'', JStr language),
                                (''extraction_method'', JStr (py ''failed'')),
                                (''text_length'', JInt 0),
                                (''page_count'', JInt 0),
                                (''attempted_paths'', JList (map JStr possible_paths))])]"

text \<open>The local variables before the extraction starts; \<open>page_count\<close> is not yet bound.\<close>

definition initial_locals :: "world \<Rightarrow> locals" where
  "initial_locals w =
     \<lparr>extracted_text = [], extraction_method = py ''none'', err = [],
      page_count = None, pypdf2_available = (import_pypdf2 w = Imported)\<rparr>"

text \<open>What follows once the file is found, with \<open>pdf_path\<close> the path that was found.\<close>

definition process_file :: "world \<Rightarrow> ucd \<Rightarrow> pystr \<Rightarrow> pystr \<Rightarrow> pyexn + json" where
  "process_file w u pdf_path language =
     (case os_stat_size w pdf_path of
        Inl e \<Rightarrow> Inl e
      | Inr file_size \<Rightarrow>
          (let filename = basename pdf_path;
               l = fallback_step w u pdf_path (pypdf2_step w pdf_path (initial_locals w));
               text = strip u (extracted_text l)
           in case page_count l of
                None \<Rightarrow> Inl unbound_page_count
              | Some n \<Rightarrow>
                  Inr (JObj [(''success'', JBool True),
                             (''text'', JStr text),
                             (''error'', JStr (err l)),
                             (''metadata'', JObj [(''filename'', JStr filename),
                                                  (''file_size'', JInt (int file_size)),
                                                  (''language'', JStr language),
                                                  (''extraction_method'', JStr (extraction_method l)),
                                                  (''text_length'', JInt (int (length text))),
                                                  (''page_count'', JInt (int n)),
                                                  (''actual_path'', JStr pdf_path),
                                                  (''pypdf2_available'', JBool (pypdf2_available l))])])))"

text \<open>
  The body of the outer \<open>try\<close>: the dictionary it returns, or the exception that reaches
  the handler together with the value that the variable \<open>pdf_path\<close> has by then. The
  body starts with \<open>import PyPDF2\<close> in a \<open>try\<close> that catches \<open>ImportError\<close> only: another
  exception reaches the outer handler before the path is looked at.
\<close>

definition extract_pdf_text_body ::
    "world \<Rightarrow> ucd \<Rightarrow> pystr option \<Rightarrow> pystr \<Rightarrow> (pyexn \<times> pystr option) + json" where
  "extract_pdf_text_body w u pdf_path language =
     (case import_pypdf2 w of
        ImportCrash e \<Rightarrow> Inl (e, pdf_path)
      | _ \<Rightarrow>
          (case pdf_path of
             None \<Rightarrow> Inl (exists_type_error, None)
           | Some p \<Rightarrow>
               (case snd (resolve_path w p) of
                  NotFound possible_paths \<Rightarrow> Inr (not_found_result w p possible_paths language)
                | Found found_path \<Rightarrow>
                    (case process_file w u found_path language of
                       Inl e \<Rightarrow> Inl (e, Some found_path)
                     | Inr result \<Rightarrow> Inr result))))"

definition error_result :: "pyexn \<Rightarrow> pystr option \<Rightarrow> pystr \<Rightarrow> json" where
  "error_result e pdf_path language =
     JObj [(''success'', JBool False),
           (''error'', JStr (str_exn e)),
           (''text'', JStr []),
           (''metadata'', JObj [(''filename'', JStr (filename_or_unknown pdf_path)),
                                (''file_size'', JInt 0),
                                (''language'', JStr language),
                                (''extraction_method'', JStr (py ''failed'')),
                                (''text_length'', JInt 0),
                                (''page_count'', JInt 0)])]"

text \<open>The function: \<open>Inr\<close> is what it returns, \<open>Inl\<close> an exception that leaves it.\<close>

definition extract_pdf_text :: "world \<Rightarrow> ucd \<Rightarrow> pystr option \<Rightarrow> pystr \<Rightarrow> pyexn + json" where
  "extract_pdf_text w u pdf_path language =
     (case extract_pdf_text_body w u pdf_path language of
        Inr result \<Rightarrow> Inr result
      | Inl (e, pdf_path') \<Rightarrow> Inr (error_result e pdf_path' language))"


text \<open>Reading a returned dictionary: an entry of the result, and an entry of its metadata.\<close>

definition result_field :: "pyexn + json \<Rightarrow> string \<Rightarrow> json option" where
  "result_field r k = (case r of Inl e \<Rightarrow> None | Inr j \<Rightarrow> field j k)"

definition metadata_field :: "pyexn + json \<Rightarrow> string \<Rightarrow> json option" where
  "metadata_field r k =
     (case result_field r ''metadata'' of None \<Rightarrow> None | Some m \<Rightarrow> field m k)"

section \<open>Concrete worlds\<close>

text \<open>
  A machine with no files, on which every library is installed and the standard output
  encodes every code point, and the same machine with one file on it and without PyPDF2;
  the theorems below are instantiated on them.
\<close>

definition no_such_file :: pyexn where
  "no_such_file = PyExn ''FileNotFoundError'' (py ''No such file or directory'')"

definition bare_world :: world where
  "bare_world =
     \<lparr>os_path_exists = (\<lambda>p. False),
      glob_glob = (\<lambda>p. Inr []),
      os_stat_size = (\<lambda>p. Inl no_such_file),
      read_bytes = (\<lambda>p. Inl no_such_file),
      import_pypdf2 = Imported,
      pypdf2_reader = (\<lambda>p. Inl no_such_file),
      ocr_imports = None,
      convert_from_path = (\<lambda>p. Inl no_such_file),
      cv2_pipeline = (\<lambda>i. Inr i),
      image_to_string = (\<lambda>i l c. Inr []),
      multilingual_extract = (\<lambda>p l. Inl no_such_file),
      import_module = (\<lambda>m. Imported),
      pip_install = (\<lambda>p. True),
      pip_output = (\<lambda>p. []),
      stdout_encodable = (\<lambda>c. True),
      repr_list = (\<lambda>ps. concat ps)\<rparr>"

definition file_world :: "pystr \<Rightarrow> nat list \<Rightarrow> world" where
  "file_world path bytes =
     bare_world
       \<lparr>os_path_exists := (\<lambda>p. p = path),
        os_stat_size := (\<lambda>p. if p = path then Inr (length bytes) else Inl no_such_file),
        read_bytes := (\<lambda>p. if p = path then Inr bytes else Inl no_such_file),
        import_pypdf2 := ImportError\<rparr>"


text \<open>
  Machines for the cascade: one where the OCR reads the text \<open>t\<close> from the one page of
  every file, one where the OCR finds no page and the multilingual library returns \<open>c\<close>,
  and one where both find nothing and every file has one page on which PyPDF2 reads \<open>t\<close>.
\<close>

definition ocr_world :: "pystr \<Rightarrow> world" where
  "ocr_world t =
     bare_world
       \<lparr>os_path_exists := (\<lambda>p. True),
        os_stat_size := (\<lambda>p. Inr 1000),
        convert_from_path := (\<lambda>p. Inr [0]),
        image_to_string := (\<lambda>i l c. Inr t)\<rparr>"

definition ml_world :: "pystr \<Rightarrow> world" where
  "ml_world c =
     bare_world
       \<lparr>os_path_exists := (\<lambda>p. True),
        os_stat_size := (\<lambda>p. Inr 1000),
        convert_from_path := (\<lambda>p. Inr []),
        multilingual_extract := (\<lambda>p l. Inr (ContentStr c))\<rparr>"

definition pypdf2_world :: "pystr \<Rightarrow> world" where
  "pypdf2_world t =
     bare_world
       \<lparr>os_path_exists := (\<lambda>p. True),
        os_stat_size := (\<lambda>p. Inr 1000),
        convert_from_path := (\<lambda>p. Inr []),
        pypdf2_reader := (\<lambda>p. Inr \<lparr>num_pages = 1, page_texts = [Inr (Some t)], iter_error = None\<rparr>)\<rparr>"

text \<open>
  A machine with one file on which PyPDF2 is installed and raises \<open>e\<close> on every file, and a
  machine without files on which \<open>import PyPDF2\<close> raises \<open>e\<close>, which is not an \<open>ImportError\<close>.
\<close>

definition broken_pdf_world :: "pystr \<Rightarrow> nat list \<Rightarrow> pyexn \<Rightarrow> world" where
  "broken_pdf_world path bytes e =
     (file_world path bytes)
       \<lparr>import_pypdf2 := Imported,
        pypdf2_reader := (\<lambda>p. Inl e)\<rparr>"

definition crash_world :: "pyexn \<Rightarrow> world" where
  "crash_world e = bare_world\<lparr>import_pypdf2 := ImportCrash e\<rparr>"



section \<open>The standalone script: exit status\<close>


lemma install_bare: "install_loop bare_world packages = ([], True)"
  by (simp add: packages_def bare_world_def)










section \<open>The standalone script: the staging of the cascade\<close>

lemma strip_Nil: "strip u [] = []" by (simp add: strip_def)

text \<open>The calls of the three strategies.\<close>

lemma calls_ocr:
  "set (fst (extract_with_enhanced_ocr w u p l)) \<subseteq> {OcrImports, ConvertFromPath p} \<and>
   hd (fst (extract_with_enhanced_ocr w u p l)) = OcrImports"
  by (simp add: extract_with_enhanced_ocr_def split: option.splits sum.splits)

lemma calls_multilingual:
  "fst (multilingual_pdf2text w u p l) = [MultilingualExtract p l]"
  by (simp add: multilingual_pdf2text_def)

lemma calls_pypdf2:
  "ImportPyPDF2 \<in> set (fst (pypdf2_basic w p)) \<and>
   set (fst (pypdf2_basic w p)) \<subseteq> {ImportPyPDF2, PdfReader p}"
  by (simp add: pypdf2_basic_def split: import_outcome.splits)

lemma calls_method1: "calls (method1 w u p l) = fst (extract_with_enhanced_ocr w u p l)"
  by (cases "extract_with_enhanced_ocr w u p l") (auto simp: method1_def split: sum.splits)

lemma text_method1:
  "extracted_text (method1 w u p l) =
     (case snd (extract_with_enhanced_ocr w u p l) of Inl e \<Rightarrow> [] | Inr t \<Rightarrow> t)"
  by (cases "extract_with_enhanced_ocr w u p l") (auto simp: method1_def split: sum.splits)

lemma method_method1:
  "snd (extract_with_enhanced_ocr w u p l) = Inr t \<Longrightarrow>
   extraction_method (method1 w u p l) = py ''enhanced_ocr''"
  by (cases "extract_with_enhanced_ocr w u p l") (auto simp: method1_def split: sum.splits)

lemma calls_method2:
  "calls (method2 w u p l st) =
     (if length (strip u (extracted_text st)) < 100 then calls st @ [MultilingualExtract p l]
      else calls st)"
proof (cases "extracted_text st = [] \<or> length (strip u (extracted_text st)) < 100")
  case True
  then have "length (strip u (extracted_text st)) < 100" by (auto simp: strip_Nil)
  with True show ?thesis
    using calls_multilingual [of w u p l]
    by (cases "multilingual_pdf2text w u p l") (auto simp: method2_def split: sum.splits)
next
  case False
  then show ?thesis by (simp add: method2_def)
qed

lemma calls_method3:
  "calls (method3 w u p st) =
     (if length (strip u (extracted_text st)) < 50 then calls st @ fst (pypdf2_basic w p)
      else calls st)"
proof (cases "extracted_text st = [] \<or> length (strip u (extracted_text st)) < 50")
  case True
  then have "length (strip u (extracted_text st)) < 50" by (auto simp: strip_Nil)
  with True show ?thesis
    by (cases "pypdf2_basic w p") (auto simp: method3_def split: option.splits)
next
  case False
  then show ?thesis by (simp add: method3_def)
qed

lemma text_method2_content:
  assumes "length (strip u (extracted_text st)) < 100" "multilingual_extract w p l = Inr c"
  shows "length (strip u (content_text u c)) \<le> length (strip u (extracted_text (method2 w u p l st)))"
  using assms by (simp add: method2_def multilingual_pdf2text_def)

lemma text_method2_taken:
  assumes "length (strip u (extracted_text st)) < 100"
    and "multilingual_extract w p l = Inr c"
    and "length (strip u (extracted_text st)) < length (strip u (content_text u c))"
  shows "extracted_text (method2 w u p l st) = content_text u c \<and>
         extraction_method (method2 w u p l st) = py ''multilingual_pdf2text''"
  using assms by (simp add: method2_def multilingual_pdf2text_def)

lemma text_method3_skip:
  "\<not> length (strip u (extracted_text st)) < 50 \<Longrightarrow> method3 w u p st = st"
  by (auto simp: method3_def strip_Nil)

lemma text_method2_skip:
  "\<not> length (strip u (extracted_text st)) < 100 \<Longrightarrow> method2 w u p l st = st"
  by (auto simp: method2_def strip_Nil)

lemma text_method3_taken:
  assumes "length (strip u (extracted_text st)) < 50"
    and "snd (pypdf2_basic w p) = Some b"
    and "length (strip u (extracted_text st)) < length (strip u b)"
  shows "extracted_text (method3 w u p st) = b \<and> extraction_method (method3 w u p st) = py ''pypdf2''"
  using assms by (cases "pypdf2_basic w p") (auto simp: method3_def)

text \<open>
  C6. The enhanced OCR is called first. The multilingual library is called when the enhanced
  OCR raises, and when it returns a text whose stripped length is below 100, and then only.
  Its text is then taken when it is longer than the one held.
  PyPDF2 is imported exactly when the text held after the second stage has stripped length
  below 50, and its text is then taken when it is longer. An OCR text of stripped length 100
  or more is kept, and the cascade makes no call but those of the OCR; a multilingual text
  of stripped length 50 or more keeps PyPDF2 from being imported.
\<close>

theorem cascade_staging:
  "hd (calls (cascade w u p l)) = OcrImports \<and>
   (snd (extract_with_enhanced_ocr w u p l) = Inl e \<longrightarrow>
      MultilingualExtract p l \<in> set (calls (cascade w u p l))) \<and>
   (snd (extract_with_enhanced_ocr w u p l) = Inr t \<longrightarrow>
      (MultilingualExtract p l \<in> set (calls (cascade w u p l)) \<longleftrightarrow> length (strip u t) < 100)) \<and>
   (length (strip u (extracted_text (method1 w u p l))) < 100 \<and>
    multilingual_extract w p l = Inr c \<and>
    length (strip u (extracted_text (method1 w u p l))) < length (strip u (content_text u c)) \<longrightarrow>
      extracted_text (method2 w u p l (method1 w u p l)) = content_text u c \<and>
      extraction_method (method2 w u p l (method1 w u p l)) = py ''multilingual_pdf2text'') \<and>
   (ImportPyPDF2 \<in> set (calls (cascade w u p l)) \<longleftrightarrow>
      length (strip u (extracted_text (method2 w u p l (method1 w u p l)))) < 50) \<and>
   (length (strip u (extracted_text (method2 w u p l (method1 w u p l)))) < 50 \<and>
    snd (pypdf2_basic w p) = Some b \<and>
    length (strip u (extracted_text (method2 w u p l (method1 w u p l)))) < length (strip u b) \<longrightarrow>
      extracted_text (cascade w u p l) = b \<and> extraction_method (cascade w u p l) = py ''pypdf2'') \<and>
   (snd (extract_with_enhanced_ocr w u p l) = Inr t \<and> 100 \<le> length (strip u t) \<longrightarrow>
      calls (cascade w u p l) = fst (extract_with_enhanced_ocr w u p l) \<and>
      extracted_text (cascade w u p l) = t \<and>
      extraction_method (cascade w u p l) = py ''enhanced_ocr'') \<and>
   (MultilingualExtract p l \<in> set (calls (cascade w u p l)) \<and>
    multilingual_extract w p l = Inr c \<and> 50 \<le> length (strip u (content_text u c)) \<longrightarrow>
      ImportPyPDF2 \<notin> set (calls (cascade w u p l)))"
proof -
  let ?o = "fst (extract_with_enhanced_ocr w u p l)"
  let ?st1 = "method1 w u p l"
  let ?st2 = "method2 w u p l ?st1"
  have o: "MultilingualExtract p l \<notin> set ?o" "ImportPyPDF2 \<notin> set ?o" "hd ?o = OcrImports"
    "?o \<noteq> []"
    using calls_ocr [of w u p l]
    by (auto simp: extract_with_enhanced_ocr_def split: option.splits sum.splits)
  have b: "MultilingualExtract p l \<notin> set (fst (pypdf2_basic w p))"
    using calls_pypdf2 [of w p] by auto
  have imp: "ImportPyPDF2 \<in> set (fst (pypdf2_basic w p))"
    using calls_pypdf2 [of w p] by simp
  have c2: "calls ?st2 =
      (if length (strip u (extracted_text ?st1)) < 100 then ?o @ [MultilingualExtract p l] else ?o)"
    by (simp add: calls_method2 calls_method1)
  have c3: "calls (cascade w u p l) =
      (if length (strip u (extracted_text ?st2)) < 50 then calls ?st2 @ fst (pypdf2_basic w p)
       else calls ?st2)"
    by (simp add: cascade_def calls_method3)
  have ml: "MultilingualExtract p l \<in> set (calls (cascade w u p l)) \<longleftrightarrow>
      length (strip u (extracted_text ?st1)) < 100"
    using o b by (simp add: c3 c2)
  have py: "ImportPyPDF2 \<in> set (calls (cascade w u p l)) \<longleftrightarrow>
      length (strip u (extracted_text ?st2)) < 50"
    using o imp by (simp add: c3 c2)
  have c0: "hd (calls (cascade w u p l)) = OcrImports"
    using o by (simp add: c3 c2)
  have c1: "MultilingualExtract p l \<in> set (calls (cascade w u p l))"
    if "snd (extract_with_enhanced_ocr w u p l) = Inl e"
    using that by (simp add: ml text_method1 strip_Nil)
  have c1': "MultilingualExtract p l \<in> set (calls (cascade w u p l)) \<longleftrightarrow> length (strip u t) < 100"
    if "snd (extract_with_enhanced_ocr w u p l) = Inr t"
    using that by (simp add: ml text_method1)
  have c3': "extracted_text ?st2 = content_text u c \<and>
      extraction_method ?st2 = py ''multilingual_pdf2text''"
    if "length (strip u (extracted_text ?st1)) < 100 \<and> multilingual_extract w p l = Inr c \<and>
        length (strip u (extracted_text ?st1)) < length (strip u (content_text u c))"
    using that by (intro text_method2_taken) simp_all
  have c4: "extracted_text (cascade w u p l) = b \<and> extraction_method (cascade w u p l) = py ''pypdf2''"
    if "length (strip u (extracted_text ?st2)) < 50 \<and> snd (pypdf2_basic w p) = Some b \<and>
        length (strip u (extracted_text ?st2)) < length (strip u b)"
    unfolding cascade_def using that by (intro text_method3_taken) simp_all
  have c5: "calls (cascade w u p l) = ?o \<and> extracted_text (cascade w u p l) = t \<and>
      extraction_method (cascade w u p l) = py ''enhanced_ocr''"
    if a: "snd (extract_with_enhanced_ocr w u p l) = Inr t \<and> 100 \<le> length (strip u t)"
  proof -
    from a have t1: "extracted_text ?st1 = t" by (simp add: text_method1)
    have m2: "?st2 = ?st1"
      using a t1 by (simp add: text_method2_skip)
    have m3: "method3 w u p ?st1 = ?st1"
      using a t1 by (simp add: text_method3_skip)
    show ?thesis using a by (simp add: cascade_def m2 m3 calls_method1 t1 method_method1)
  qed
  have c6: "ImportPyPDF2 \<notin> set (calls (cascade w u p l))"
    if a: "MultilingualExtract p l \<in> set (calls (cascade w u p l)) \<and>
      multilingual_extract w p l = Inr c \<and> 50 \<le> length (strip u (content_text u c))"
  proof -
    from a have gate: "length (strip u (extracted_text ?st1)) < 100"
      by (simp add: ml)
    from text_method2_content [OF gate, of w p l c] a
    have "50 \<le> length (strip u (extracted_text ?st2))" by simp
    then show ?thesis by (simp add: py)
  qed
  show ?thesis using c0 c1 c1' c3' py c4 c5 c6 by blast
qed

lemma ocr_page_same:
  "image_to_string w (preprocess_image_for_ocr w i) l Psm6_whitelist = Inr t \<Longrightarrow>
   image_to_string w (preprocess_image_for_ocr w i) l Psm3 = Inr t \<Longrightarrow>
   ocr_page w u l i = Some t"
  by (simp add: ocr_page_def Let_def)

lemma strip_letters: "strip u (replicate n 97) = replicate n 97"
  by (simp add: strip_def isspace_def)

lemma ocr_world_text:
  "extract_with_enhanced_ocr (ocr_world (replicate 120 97)) u p l =
     ([OcrImports, ConvertFromPath p], Inr (replicate 120 97))"
proof -
  have "ocr_page (ocr_world (replicate 120 97)) u l 0 = Some (replicate 120 97)"
    by (rule ocr_page_same) (simp_all add: ocr_world_def bare_world_def)
  then have "ocr_pages (ocr_world (replicate 120 97)) u l [0] [] = replicate 120 97 @ [10, 10]"
    by simp
  moreover have "strip u (replicate 120 97 @ [10, 10]) = replicate 120 97"
    by (simp add: strip_def isspace_def)
  ultimately show ?thesis
    by (simp add: extract_with_enhanced_ocr_def ocr_world_def bare_world_def)
qed

lemma no_pages_text:
  "convert_from_path w p = Inr [] \<Longrightarrow> ocr_imports w = None \<Longrightarrow>
   extract_with_enhanced_ocr w u p l = ([OcrImports, ConvertFromPath p], Inr [])"
  by (simp add: extract_with_enhanced_ocr_def strip_def)

text \<open>
  Four runs: the OCR raises; the OCR finds nothing and the multilingual library returns
  sixty letters; the OCR returns 120 letters; the OCR finds nothing, the multilingual
  library raises and PyPDF2 reads twenty letters.
\<close>

theorem cascade_staging_witness:
  "snd (extract_with_enhanced_ocr bare_world ascii_db (py ''a.pdf'') (py ''eng'')) = Inl no_such_file \<and>
   MultilingualExtract (py ''a.pdf'') (py ''eng'') \<in>
     set (calls (cascade bare_world ascii_db (py ''a.pdf'') (py ''eng''))) \<and>
   snd (extract_with_enhanced_ocr (ml_world (replicate 60 97)) ascii_db (py ''a.pdf'') (py ''eng'')) = Inr [] \<and>
   multilingual_extract (ml_world (replicate 60 97)) (py ''a.pdf'') (py ''eng'') = Inr (ContentStr (replicate 60 97)) \<and>
   MultilingualExtract (py ''a.pdf'') (py ''eng'') \<in>
     set (calls (cascade (ml_world (replicate 60 97)) ascii_db (py ''a.pdf'') (py ''eng''))) \<and>
   ImportPyPDF2 \<notin> set (calls (cascade (ml_world (replicate 60 97)) ascii_db (py ''a.pdf'') (py ''eng''))) \<and>
   extracted_text (cascade (ml_world (replicate 60 97)) ascii_db (py ''a.pdf'') (py ''eng'')) =
     replicate 60 97 \<and>
   calls (cascade (ocr_world (replicate 120 97)) ascii_db (py ''a.pdf'') (py ''eng'')) =
     [OcrImports, ConvertFromPath (py ''a.pdf'')] \<and>
   extracted_text (cascade (ocr_world (replicate 120 97)) ascii_db (py ''a.pdf'') (py ''eng'')) =
     replicate 120 97 \<and>
   ImportPyPDF2 \<in> set (calls (cascade (pypdf2_world (replicate 20 97)) ascii_db (py ''a.pdf'') (py ''eng''))) \<and>
   extracted_text (cascade (pypdf2_world (replicate 20 97)) ascii_db (py ''a.pdf'') (py ''eng'')) =
     replicate 20 97 @ [10, 10] \<and>
   extraction_method (cascade (pypdf2_world (replicate 20 97)) ascii_db (py ''a.pdf'') (py ''eng'')) =
     py ''pypdf2''"
proof -
  let ?p = "py ''a.pdf''" and ?l = "py ''eng''"
  have o1: "snd (extract_with_enhanced_ocr bare_world ascii_db ?p ?l) = Inl no_such_file"
    by (simp add: extract_with_enhanced_ocr_def bare_world_def)
  have o2: "extract_with_enhanced_ocr (ml_world (replicate 60 97)) ascii_db ?p ?l =
      ([OcrImports, ConvertFromPath ?p], Inr [])"
    by (rule no_pages_text) (simp_all add: ml_world_def bare_world_def)
  have m2: "multilingual_extract (ml_world (replicate 60 97)) ?p ?l = Inr (ContentStr (replicate 60 97))"
    by (simp add: ml_world_def bare_world_def)
  have o3: "extract_with_enhanced_ocr (ocr_world (replicate 120 97)) ascii_db ?p ?l =
      ([OcrImports, ConvertFromPath ?p], Inr (replicate 120 97))"
    by (rule ocr_world_text)
  have o4: "extract_with_enhanced_ocr (pypdf2_world (replicate 20 97)) ascii_db ?p ?l =
      ([OcrImports, ConvertFromPath ?p], Inr [])"
    by (rule no_pages_text) (simp_all add: pypdf2_world_def bare_world_def)
  have s4: "extracted_text (method2 (pypdf2_world (replicate 20 97)) ascii_db ?p ?l
               (method1 (pypdf2_world (replicate 20 97)) ascii_db ?p ?l)) = []"
  proof -
    have m1: "method1 (pypdf2_world (replicate 20 97)) ascii_db ?p ?l =
        \<lparr>extracted_text = [], extraction_method = py ''enhanced_ocr'',
         calls = [OcrImports, ConvertFromPath ?p]\<rparr>"
      by (simp add: method1_def o4)
    have ml: "multilingual_pdf2text (pypdf2_world (replicate 20 97)) ascii_db ?p ?l =
        ([MultilingualExtract ?p ?l], Inl no_such_file)"
      by (simp add: multilingual_pdf2text_def pypdf2_world_def bare_world_def)
    show ?thesis by (simp add: m1 method2_def ml)
  qed
  have b4: "snd (pypdf2_basic (pypdf2_world (replicate 20 97)) ?p) = Some (replicate 20 97 @ [10, 10])"
    by (simp add: pypdf2_basic_def pypdf2_world_def bare_world_def)
  have l4: "strip ascii_db (replicate 20 97 @ [10, 10]) = replicate 20 97"
    by (simp add: strip_def isspace_def)
  have r1: "MultilingualExtract ?p ?l \<in> set (calls (cascade bare_world ascii_db ?p ?l))"
    using cascade_staging [of bare_world ascii_db ?p ?l no_such_file "[]" "ContentStr []" "[]"] o1
    by simp
  have t1: "extracted_text (method1 (ml_world (replicate 60 97)) ascii_db ?p ?l) = []"
    by (simp add: text_method1 o2)
  have r2: "MultilingualExtract ?p ?l \<in> set (calls (cascade (ml_world (replicate 60 97)) ascii_db ?p ?l)) \<and>
      ImportPyPDF2 \<notin> set (calls (cascade (ml_world (replicate 60 97)) ascii_db ?p ?l)) \<and>
      extracted_text (method2 (ml_world (replicate 60 97)) ascii_db ?p ?l
        (method1 (ml_world (replicate 60 97)) ascii_db ?p ?l)) = replicate 60 97"
    using cascade_staging [of "ml_world (replicate 60 97)" ascii_db ?p ?l no_such_file "[]"
        "ContentStr (replicate 60 97)" "[]"] o2 m2 t1
    by (auto simp add: strip_Nil strip_letters)
  have r2': "extracted_text (cascade (ml_world (replicate 60 97)) ascii_db ?p ?l) = replicate 60 97"
    using r2 by (simp add: cascade_def text_method3_skip strip_letters)
  have r3: "calls (cascade (ocr_world (replicate 120 97)) ascii_db ?p ?l) = [OcrImports, ConvertFromPath ?p] \<and>
      extracted_text (cascade (ocr_world (replicate 120 97)) ascii_db ?p ?l) = replicate 120 97"
    using cascade_staging [of "ocr_world (replicate 120 97)" ascii_db ?p ?l no_such_file
        "replicate 120 97" "ContentStr []" "[]"] o3
    by (simp add: strip_letters)
  have r4: "ImportPyPDF2 \<in> set (calls (cascade (pypdf2_world (replicate 20 97)) ascii_db ?p ?l)) \<and>
      extracted_text (cascade (pypdf2_world (replicate 20 97)) ascii_db ?p ?l) = replicate 20 97 @ [10, 10] \<and>
      extraction_method (cascade (pypdf2_world (replicate 20 97)) ascii_db ?p ?l) = py ''pypdf2''"
    using cascade_staging [of "pypdf2_world (replicate 20 97)" ascii_db ?p ?l no_such_file
        "[]" "ContentStr []" "replicate 20 97 @ [10, 10]"] s4 b4 l4
    by (simp add: strip_Nil)
  show ?thesis using o1 o2 m2 r1 r2 r2' r3 r4 by simp
qed

section \<open>Both programs: the shape of every result\<close>











section \<open>The embedded module: the path of the file\<close>

text \<open>When nothing exists and no search finds anything, every candidate and every pattern is tried.\<close>

lemma first_existing_none:
  "\<forall>c \<in> set cs. \<not> os_path_exists w c \<Longrightarrow> first_existing w cs = (map ExistsProbe cs, None)"
  by (induction cs) auto

lemma first_glob_none:
  "\<forall>pat \<in> set pats. glob_glob w pat = Inr [] \<or> (\<exists>e. glob_glob w pat = Inl e) \<Longrightarrow>
   first_glob w pats found = (map GlobProbe pats, found)"
  by (induction pats) auto

lemma resolve_not_found:
  assumes "\<forall>c \<in> set (possible_paths_of p). \<not> os_path_exists w c"
    and "\<forall>pat \<in> set (search_patterns_of (basename p)).
           glob_glob w pat = Inr [] \<or> (\<exists>e. glob_glob w pat = Inl e)"
  shows "resolve_path w p =
           (ExistsProbe p # map ExistsProbe (possible_paths_of p) @
              map GlobProbe (search_patterns_of (basename p)),
            NotFound (possible_paths_of p))"
proof -
  have "\<not> os_path_exists w p" using assms(1) by (simp add: possible_paths_of_def)
  then show ?thesis
    by (simp add: resolve_path_def Let_def first_existing_none [OF assms(1)]
        first_glob_none [OF assms(2)] falsy_def)
qed

text \<open>
  C8. When \<open>import PyPDF2\<close> returns or raises \<open>ImportError\<close>, no candidate location exists
  and no glob search yields a file, the embedded module returns a result whose \<open>success\<close>
  is false, whose \<open>error\<close> says that the PDF file was not found and lists the paths tried,
  and whose metadata has under \<open>attempted_paths\<close> the full list of candidate paths, which is
  not empty. In the standalone script the path is tested before anything else: when it does
  not exist the result has \<open>success\<close> false and its \<open>error\<close> is the message of the
  \<open>FileNotFoundError\<close>.
\<close>

theorem not_found_results:
  assumes "\<forall>c \<in> set (possible_paths_of p). \<not> os_path_exists w c"
    and "\<forall>pat \<in> set (search_patterns_of (basename p)).
           glob_glob w pat = Inr [] \<or> (\<exists>e. glob_glob w pat = Inl e)"
    and "import_pypdf2 w = Imported \<or> import_pypdf2 w = ImportError"
  shows "result_field (extract_pdf_text w u (Some p) l) ''success'' = Some (JBool False) \<and>
         result_field (extract_pdf_text w u (Some p) l) ''error'' =
           Some (JStr (py ''PDF file not found. Tried paths: '' @ repr_list w (possible_paths_of p))) \<and>
         metadata_field (extract_pdf_text w u (Some p) l) ''attempted_paths'' =
           Some (JList (map JStr (possible_paths_of p))) \<and>
         possible_paths_of p \<noteq> [] \<and>
         result_field (extract_text_from_pdf w u (Some p) l) ''success'' = Some (JBool False) \<and>
         result_field (extract_text_from_pdf w u (Some p) l) ''error'' =
           Some (JStr (py ''PDF file not found: '' @ p))"
proof -
  have np: "\<not> os_path_exists w p" using assms(1) by (simp add: possible_paths_of_def)
  have e: "extract_pdf_text w u (Some p) l =
             Inr (not_found_result w p (possible_paths_of p) l)"
    using assms(3)
    by (auto simp: extract_pdf_text_def extract_pdf_text_body_def
        resolve_not_found [OF assms(1) assms(2)])
  have s: "extract_text_from_pdf_body w u (Some p) l =
             Inl (PyExn ''FileNotFoundError'' (py ''PDF file not found: '' @ p))"
    using np by (simp add: extract_text_from_pdf_body_def)
  show ?thesis
    by (simp add: e s extract_text_from_pdf_def not_found_result_def result_field_def
        metadata_field_def field_def possible_paths_of_def)
qed

text \<open>The path \<open>/no/such/file.pdf\<close> on a machine with no files.\<close>

theorem not_found_results_witness:
  "result_field (extract_pdf_text bare_world ascii_db (Some (py ''/no/such/file.pdf'')) (py ''eng''))
     ''success'' = Some (JBool False) \<and>
   metadata_field (extract_pdf_text bare_world ascii_db (Some (py ''/no/such/file.pdf'')) (py ''eng''))
     ''attempted_paths'' = Some (JList (map JStr (possible_paths_of (py ''/no/such/file.pdf'')))) \<and>
   result_field (extract_text_from_pdf bare_world ascii_db (Some (py ''/no/such/file.pdf'')) (py ''eng''))
     ''error'' = Some (JStr (py ''PDF file not found: '' @ py ''/no/such/file.pdf''))"
proof -
  have h1: "\<forall>c \<in> set (possible_paths_of (py ''/no/such/file.pdf'')). \<not> os_path_exists bare_world c"
    by (simp add: bare_world_def)
  have h2: "\<forall>pat \<in> set (search_patterns_of (basename (py ''/no/such/file.pdf''))).
       glob_glob bare_world pat = Inr [] \<or> (\<exists>e. glob_glob bare_world pat = Inl e)"
    by (simp add: bare_world_def)
  have h3: "import_pypdf2 bare_world = Imported \<or> import_pypdf2 bare_world = ImportError"
    by (simp add: bare_world_def)
  show ?thesis
    using not_found_results [OF h1 h2 h3, of ascii_db "py ''eng''"] by simp
qed

text \<open>
  The same path on a machine on which \<open>import PyPDF2\<close> raises a \<open>SyntaxError\<close>: no
  candidate exists and no search finds anything, the \<open>error\<close> of the result is the message
  of that exception, and the metadata has no \<open>attempted_paths\<close>.
\<close>

theorem not_found_after_import_crash:
  "result_field (extract_pdf_text (crash_world (PyExn ''SyntaxError'' (py ''invalid syntax'')))
       ascii_db (Some (py ''/no/such/file.pdf'')) (py ''eng'')) ''error'' =
     Some (JStr (py ''invalid syntax'')) \<and>
   metadata_field (extract_pdf_text (crash_world (PyExn ''SyntaxError'' (py ''invalid syntax'')))
       ascii_db (Some (py ''/no/such/file.pdf'')) (py ''eng'')) ''attempted_paths'' = None \<and>
   snd (resolve_path (crash_world (PyExn ''SyntaxError'' (py ''invalid syntax''))) (py ''/no/such/file.pdf'')) =
     NotFound (possible_paths_of (py ''/no/such/file.pdf''))"
proof -
  let ?w = "crash_world (PyExn ''SyntaxError'' (py ''invalid syntax''))"
  have h1: "\<forall>c \<in> set (possible_paths_of (py ''/no/such/file.pdf'')). \<not> os_path_exists ?w c"
    by (simp add: crash_world_def bare_world_def)
  have h2: "\<forall>pat \<in> set (search_patterns_of (basename (py ''/no/such/file.pdf''))).
       glob_glob ?w pat = Inr [] \<or> (\<exists>e. glob_glob ?w pat = Inl e)"
    by (simp add: crash_world_def bare_world_def)
  have r: "snd (resolve_path ?w (py ''/no/such/file.pdf'')) =
      NotFound (possible_paths_of (py ''/no/such/file.pdf''))"
    by (simp add: resolve_not_found [OF h1 h2])
  have e: "extract_pdf_text ?w ascii_db (Some (py ''/no/such/file.pdf'')) (py ''eng'') =
      Inr (error_result (PyExn ''SyntaxError'' (py ''invalid syntax''))
             (Some (py ''/no/such/file.pdf'')) (py ''eng''))"
    by (simp add: extract_pdf_text_def extract_pdf_text_body_def crash_world_def)
  show ?thesis
    by (simp add: r e error_result_def result_field_def metadata_field_def field_def)
qed

section \<open>The embedded module: processing the file\<close>

text \<open>
  The variable \<open>page_count\<close> is bound when the result is built: the step with PyPDF2 binds it
  unless PyPDF2 is missing or the reader raises, and the scan of the bytes then runs and binds it.
\<close>

lemma err_fallback_step: "err (fallback_step w u f l) = err l"
  by (simp add: fallback_step_def split: sum.splits prod.splits)

lemma page_count_pypdf2_step:
  "pypdf2_available (pypdf2_step w f (initial_locals w)) \<Longrightarrow>
   page_count (pypdf2_step w f (initial_locals w)) \<noteq> None"
  by (auto simp: pypdf2_step_def initial_locals_def Let_def split: if_splits sum.splits option.splits)

lemma text_pypdf2_step_unavailable:
  "\<not> pypdf2_available l \<Longrightarrow> pypdf2_step w f l = l"
  by (simp add: pypdf2_step_def)

lemma page_count_fallback_step:
  "\<not> pypdf2_available l \<and> extracted_text l = [] \<Longrightarrow> page_count (fallback_step w u f l) \<noteq> None"
  by (auto simp: fallback_step_def split: sum.splits prod.splits)

lemma fallback_step_skip:
  "\<not> (\<not> pypdf2_available l \<and> extracted_text l = []) \<Longrightarrow> fallback_step w u f l = l"
  by (auto simp: fallback_step_def)

lemma page_count_reader:
  "pypdf2_available l \<Longrightarrow> pypdf2_reader w f = Inr r \<Longrightarrow>
   page_count (pypdf2_step w f l) = Some (num_pages r)"
  by (simp add: pypdf2_step_def Let_def split: option.splits)

lemma text_reader_failed:
  "pypdf2_available l \<Longrightarrow> pypdf2_reader w f = Inl e \<Longrightarrow>
   pypdf2_step w f l = l\<lparr>err := err l @ pypdf2_error e, pypdf2_available := False\<rparr>"
  by (simp add: pypdf2_step_def)

lemma page_count_bound:
  "page_count (fallback_step w u f (pypdf2_step w f (initial_locals w))) \<noteq> None"
proof (cases "\<not> pypdf2_available (pypdf2_step w f (initial_locals w)) \<and>
              extracted_text (pypdf2_step w f (initial_locals w)) = []")
  case True
  then show ?thesis by (rule page_count_fallback_step)
next
  case False
  then have skip: "fallback_step w u f (pypdf2_step w f (initial_locals w)) =
                   pypdf2_step w f (initial_locals w)"
    by (rule fallback_step_skip)
  show ?thesis
  proof (cases "import_pypdf2 w = Imported")
    case imp: True
    show ?thesis
    proof (cases "pypdf2_reader w f")
      case (Inl e)
      with imp False show ?thesis
        by (simp add: text_reader_failed initial_locals_def)
    next
      case (Inr r)
      from imp have "pypdf2_available (initial_locals w)"
        by (simp add: initial_locals_def)
      then have "page_count (pypdf2_step w f (initial_locals w)) = Some (num_pages r)"
        using Inr by (rule page_count_reader)
      then show ?thesis
        unfolding skip by simp
    qed
  next
    case nimp: False
    with False show ?thesis
      by (simp add: text_pypdf2_step_unavailable initial_locals_def)
  qed
qed

lemma process_file_result:
  assumes "os_stat_size w f = Inr n"
  shows "\<exists>m. process_file w u f l =
           Inr (JObj [(''success'', JBool True),
                      (''text'', JStr (strip u (extracted_text
                          (fallback_step w u f (pypdf2_step w f (initial_locals w)))))),
                      (''error'', JStr (err (pypdf2_step w f (initial_locals w)))),
                      (''metadata'', JObj m)]) \<and>
           map_of m ''extraction_method'' =
             Some (JStr (extraction_method
                (fallback_step w u f (pypdf2_step w f (initial_locals w))))) \<and>
           map_of m ''page_count'' =
             map_option (\<lambda>k. JInt (int k))
               (page_count (fallback_step w u f (pypdf2_step w f (initial_locals w)))) \<and>
           map_of m ''actual_path'' = Some (JStr f)"
proof -
  obtain k where k: "page_count (fallback_step w u f (pypdf2_step w f (initial_locals w))) = Some k"
    using page_count_bound [of w u f] by blast
  show ?thesis
    using assms k by (simp add: process_file_def Let_def err_fallback_step)
qed


lemma found_result:
  assumes "import_pypdf2 w = Imported \<or> import_pypdf2 w = ImportError"
    and "snd (resolve_path w p) = Found f"
  shows "extract_pdf_text w u (Some p) l =
           (case process_file w u f l of
              Inl e \<Rightarrow> Inr (error_result e (Some f) l) | Inr r \<Rightarrow> Inr r)"
  using assms
  by (auto simp: extract_pdf_text_def extract_pdf_text_body_def split: sum.splits)




lemma contains_self_suffix: "contains (a @ b) b"
proof (induction a)
  case Nil
  have "startswith b b" by (induction b) auto
  then show ?case by (cases b) auto
next
  case (Cons c a)
  then show ?case by simp
qed

lemma pypdf2_step_raises:
  assumes "import_pypdf2 w = Imported"
    and "pypdf2_reader w f = Inl e \<or> (\<exists>r. pypdf2_reader w f = Inr r \<and> iter_error r = Some e)"
  shows "err (pypdf2_step w f (initial_locals w)) = pypdf2_error e \<and>
         \<not> pypdf2_available (pypdf2_step w f (initial_locals w))"
  using assms by (auto simp: pypdf2_step_def initial_locals_def Let_def)

text \<open>
  C10. When the file is found, its size can be read, PyPDF2 is importable and its extraction
  raises \<open>e\<close> (when the file is opened or parsed, or while the pages are iterated), the
  result has \<open>success\<close> true and its \<open>error\<close> is four newlines and
  \<open>; PyPDF2 error: \<close> followed by the message of \<open>e\<close>: it is not empty and
  contains that message. This holds whether or not the scan of the bytes runs afterwards.
\<close>

theorem success_with_pypdf2_error:
  assumes "snd (resolve_path w p) = Found f"
    and "os_stat_size w f = Inr n"
    and "import_pypdf2 w = Imported"
    and "pypdf2_reader w f = Inl e \<or> (\<exists>r. pypdf2_reader w f = Inr r \<and> iter_error r = Some e)"
  shows "result_field (extract_pdf_text w u (Some p) l) ''success'' = Some (JBool True) \<and>
         result_field (extract_pdf_text w u (Some p) l) ''error'' = Some (JStr (pypdf2_error e)) \<and>
         pypdf2_error e \<noteq> [] \<and>
         contains (pypdf2_error e) (str_exn e)"
proof -
  obtain m where m: "process_file w u f l =
       Inr (JObj [(''success'', JBool True),
                  (''text'', JStr (strip u (extracted_text
                      (fallback_step w u f (pypdf2_step w f (initial_locals w)))))),
                  (''error'', JStr (err (pypdf2_step w f (initial_locals w)))),
                  (''metadata'', JObj m)])"
    using process_file_result [OF assms(2), of u l] by blast
  have e: "err (pypdf2_step w f (initial_locals w)) = pypdf2_error e"
    using pypdf2_step_raises [OF assms(3) assms(4)] by simp
  have c: "contains (pypdf2_error e) (str_exn e)"
    using contains_self_suffix [of "[10, 10, 10, 10] @ py ''; PyPDF2 error: ''" "str_exn e"]
    by (simp add: pypdf2_error_def)
  have ne: "pypdf2_error e \<noteq> []"
    by (simp add: pypdf2_error_def)
  have i: "import_pypdf2 w = Imported \<or> import_pypdf2 w = ImportError"
    using assms(3) by simp
  show ?thesis
    using c ne by (simp add: found_result [OF i assms(1)] m e result_field_def field_def)
qed

text \<open>A machine on which PyPDF2 raises \<open>EOF marker not found\<close>.\<close>

theorem success_with_pypdf2_error_witness:
  "result_field (extract_pdf_text
       (broken_pdf_world (py ''/a.pdf'') (py ''%PDF-1.4 (Hello World)'') (PyExn ''PdfReadError'' (py ''EOF marker not found'')))
       ascii_db (Some (py ''/a.pdf'')) (py ''eng'')) ''success'' = Some (JBool True) \<and>
   result_field (extract_pdf_text
       (broken_pdf_world (py ''/a.pdf'') (py ''%PDF-1.4 (Hello World)'') (PyExn ''PdfReadError'' (py ''EOF marker not found'')))
       ascii_db (Some (py ''/a.pdf'')) (py ''eng'')) ''error'' =
     Some (JStr ([10, 10, 10, 10] @ py ''; PyPDF2 error: EOF marker not found''))"
proof -
  let ?e = "PyExn ''PdfReadError'' (py ''EOF marker not found'')"
  let ?w = "broken_pdf_world (py ''/a.pdf'') (py ''%PDF-1.4 (Hello World)'') ?e"
  have h1: "snd (resolve_path ?w (py ''/a.pdf'')) = Found (py ''/a.pdf'')"
    by (simp add: resolve_path_def broken_pdf_world_def file_world_def)
  have h2: "os_stat_size ?w (py ''/a.pdf'') = Inr (length (py ''%PDF-1.4 (Hello World)''))"
    by (simp add: broken_pdf_world_def file_world_def)
  have h3: "import_pypdf2 ?w = Imported"
    by (simp add: broken_pdf_world_def)
  have h4: "pypdf2_reader ?w (py ''/a.pdf'') = Inl ?e \<or>
            (\<exists>r. pypdf2_reader ?w (py ''/a.pdf'') = Inr r \<and> iter_error r = Some ?e)"
    by (simp add: broken_pdf_world_def)
  show ?thesis
    using success_with_pypdf2_error [OF h1 h2 h3 h4, of ascii_db "py ''eng''"]
    by (simp add: pypdf2_error_def py_def)
qed

lemma strip_message:
  "strip u (py ''PDF file exists but could not be processed: '' @ str_exn invalid_pdf) =
   py ''PDF file exists but could not be processed: File does not appear to be a valid PDF''"
  by (simp add: strip_def invalid_pdf_def py_def isspace_def)

lemma fallback_invalid:
  assumes "\<not> pypdf2_available l0" "extracted_text l0 = []"
    and "read_bytes w f = Inr content" "\<not> startswith content (py ''%PDF-'')"
  shows "fallback_step w u f l0 =
           l0\<lparr>extracted_text := py ''PDF file exists but could not be processed: '' @ str_exn invalid_pdf,
               extraction_method := py ''failed'',
               page_count := Some 0\<rparr>"
  using assms by (simp add: fallback_step_def fallback_scan_def)

lemma invalid_pdf_fields:
  assumes "import_pypdf2 w = Imported \<or> import_pypdf2 w = ImportError"
    and "snd (resolve_path w p) = Found f"
    and "os_stat_size w f = Inr n"
    and "\<not> pypdf2_available (pypdf2_step w f (initial_locals w))"
    and "extracted_text (pypdf2_step w f (initial_locals w)) = []"
    and "read_bytes w f = Inr content"
    and "\<not> startswith content (py ''%PDF-'')"
  shows "result_field (extract_pdf_text w u (Some p) l) ''success'' = Some (JBool True) \<and>
         result_field (extract_pdf_text w u (Some p) l) ''text'' =
           Some (JStr (py ''PDF file exists but could not be processed: File does not appear to be a valid PDF'')) \<and>
         result_field (extract_pdf_text w u (Some p) l) ''error'' =
           Some (JStr (err (pypdf2_step w f (initial_locals w)))) \<and>
         metadata_field (extract_pdf_text w u (Some p) l) ''extraction_method'' =
           Some (JStr (py ''failed'')) \<and>
         metadata_field (extract_pdf_text w u (Some p) l) ''page_count'' = Some (JInt 0)"
proof -
  let ?l = "fallback_step w u f (pypdf2_step w f (initial_locals w))"
  have fb: "?l = (pypdf2_step w f (initial_locals w))
      \<lparr>extracted_text := py ''PDF file exists but could not be processed: '' @ str_exn invalid_pdf,
       extraction_method := py ''failed'',
       page_count := Some 0\<rparr>"
    using assms(4-7) by (rule fallback_invalid)
  have t: "strip u (extracted_text ?l) =
      py ''PDF file exists but could not be processed: File does not appear to be a valid PDF''"
    unfolding fb using strip_message [of u] by simp
  have em: "extraction_method ?l = py ''failed''" unfolding fb by simp
  have pc: "page_count ?l = Some 0" unfolding fb by simp
  obtain m where m: "process_file w u f l =
       Inr (JObj [(''success'', JBool True),
                  (''text'', JStr (strip u (extracted_text ?l))),
                  (''error'', JStr (err (pypdf2_step w f (initial_locals w)))),
                  (''metadata'', JObj m)])"
      and m1: "map_of m ''extraction_method'' = Some (JStr (extraction_method ?l))"
      and m2: "map_of m ''page_count'' = map_option (\<lambda>k. JInt (int k)) (page_count ?l)"
    using process_file_result [OF assms(3), of u l] by blast
  show ?thesis
    by (simp add: found_result [OF assms(1) assms(2)] m m1 m2 t em pc result_field_def
        metadata_field_def field_def)
qed

text \<open>
  C3. When the scan of the bytes runs on a file that is found and whose content does not start
  with \<open>%PDF-\<close>, the result has \<open>success\<close> true; the message
  \<open>PDF file exists but could not be processed: File does not appear to be a valid PDF\<close> is
  its \<open>text\<close>, its \<open>extraction_method\<close> is \<open>failed\<close> and its \<open>page_count\<close> is 0. Its
  \<open>error\<close> holds only what the step with PyPDF2 left there. The scan runs when the body
  got past \<open>import PyPDF2\<close>, PyPDF2 is missing or has raised, and no text was extracted.
\<close>

theorem invalid_pdf_reported_in_text:
  assumes "import_pypdf2 w = Imported \<or> import_pypdf2 w = ImportError"
    and "snd (resolve_path w p) = Found f"
    and "os_stat_size w f = Inr n"
    and "\<not> pypdf2_available (pypdf2_step w f (initial_locals w))"
    and "extracted_text (pypdf2_step w f (initial_locals w)) = []"
    and "read_bytes w f = Inr content"
    and "\<not> startswith content (py ''%PDF-'')"
  shows "result_field (extract_pdf_text w u (Some p) l) ''success'' = Some (JBool True) \<and>
         result_field (extract_pdf_text w u (Some p) l) ''text'' =
           Some (JStr (py ''PDF file exists but could not be processed: File does not appear to be a valid PDF'')) \<and>
         result_field (extract_pdf_text w u (Some p) l) ''error'' =
           Some (JStr (err (pypdf2_step w f (initial_locals w)))) \<and>
         metadata_field (extract_pdf_text w u (Some p) l) ''extraction_method'' =
           Some (JStr (py ''failed'')) \<and>
         metadata_field (extract_pdf_text w u (Some p) l) ''page_count'' = Some (JInt 0)"
  using assms by (rule invalid_pdf_fields)

text \<open>A file that holds \<open>GIF89a\<close>, without PyPDF2: the \<open>error\<close> is empty.\<close>

theorem invalid_pdf_reported_in_text_witness:
  "result_field (extract_pdf_text (file_world (py ''/doc.pdf'') (py ''GIF89a''))
       ascii_db (Some (py ''/doc.pdf'')) (py ''eng'')) ''text'' =
     Some (JStr (py ''PDF file exists but could not be processed: File does not appear to be a valid PDF'')) \<and>
   result_field (extract_pdf_text (file_world (py ''/doc.pdf'') (py ''GIF89a''))
       ascii_db (Some (py ''/doc.pdf'')) (py ''eng'')) ''error'' = Some (JStr []) \<and>
   metadata_field (extract_pdf_text (file_world (py ''/doc.pdf'') (py ''GIF89a''))
       ascii_db (Some (py ''/doc.pdf'')) (py ''eng'')) ''extraction_method'' = Some (JStr (py ''failed''))"
proof -
  let ?w = "file_world (py ''/doc.pdf'') (py ''GIF89a'')"
  have s: "pypdf2_step ?w (py ''/doc.pdf'') (initial_locals ?w) = initial_locals ?w"
    by (simp add: pypdf2_step_def initial_locals_def file_world_def bare_world_def)
  have h0: "import_pypdf2 ?w = Imported \<or> import_pypdf2 ?w = ImportError"
    by (simp add: file_world_def)
  have h1: "snd (resolve_path ?w (py ''/doc.pdf'')) = Found (py ''/doc.pdf'')"
    by (simp add: resolve_path_def file_world_def)
  have h2: "os_stat_size ?w (py ''/doc.pdf'') = Inr (length (py ''GIF89a''))"
    by (simp add: file_world_def)
  have h3: "\<not> pypdf2_available (pypdf2_step ?w (py ''/doc.pdf'') (initial_locals ?w))"
    unfolding s by (simp add: initial_locals_def file_world_def bare_world_def)
  have h4: "extracted_text (pypdf2_step ?w (py ''/doc.pdf'') (initial_locals ?w)) = []"
    unfolding s by (simp add: initial_locals_def)
  have h5: "read_bytes ?w (py ''/doc.pdf'') = Inr (py ''GIF89a'')"
    by (simp add: file_world_def)
  have h6: "\<not> startswith (py ''GIF89a'') (py ''%PDF-'')"
    by (simp add: py_def)
  show ?thesis
    using invalid_pdf_reported_in_text [OF h0 h1 h2 h3 h4 h5 h6, of ascii_db "py ''eng''"]
    unfolding s by (simp add: initial_locals_def)
qed

text \<open>
  A file that holds \<open>hello\<close>: the content does not start with the signature, and the result
  has \<open>success\<close> true and an empty \<open>error\<close>.
\<close>

theorem invalid_pdf_success_true:
  "result_field (extract_pdf_text (file_world (py ''/a.pdf'') (py ''hello''))
       ascii_db (Some (py ''/a.pdf'')) (py ''eng'')) ''success'' = Some (JBool True) \<and>
   result_field (extract_pdf_text (file_world (py ''/a.pdf'') (py ''hello''))
       ascii_db (Some (py ''/a.pdf'')) (py ''eng'')) ''error'' = Some (JStr []) \<and>
   \<not> startswith (py ''hello'') (py ''%PDF-'')"
proof -
  let ?w = "file_world (py ''/a.pdf'') (py ''hello'')"
  have s: "pypdf2_step ?w (py ''/a.pdf'') (initial_locals ?w) = initial_locals ?w"
    by (simp add: pypdf2_step_def initial_locals_def file_world_def bare_world_def)
  have h0: "import_pypdf2 ?w = Imported \<or> import_pypdf2 ?w = ImportError"
    by (simp add: file_world_def)
  have h1: "snd (resolve_path ?w (py ''/a.pdf'')) = Found (py ''/a.pdf'')"
    by (simp add: resolve_path_def file_world_def)
  have h2: "os_stat_size ?w (py ''/a.pdf'') = Inr (length (py ''hello''))"
    by (simp add: file_world_def)
  have h3: "\<not> pypdf2_available (pypdf2_step ?w (py ''/a.pdf'') (initial_locals ?w))"
    unfolding s by (simp add: initial_locals_def file_world_def bare_world_def)
  have h4: "extracted_text (pypdf2_step ?w (py ''/a.pdf'') (initial_locals ?w)) = []"
    unfolding s by (simp add: initial_locals_def)
  have h5: "read_bytes ?w (py ''/a.pdf'') = Inr (py ''hello'')"
    by (simp add: file_world_def)
  have h6: "\<not> startswith (py ''hello'') (py ''%PDF-'')"
    by (simp add: py_def)
  show ?thesis
    using invalid_pdf_fields [OF h0 h1 h2 h3 h4 h5 h6, of ascii_db "py ''eng''"] h6
    unfolding s by (simp add: initial_locals_def)
qed

section \<open>The garbled-text heuristic: its conditions\<close>

text \<open>A block of \<open>n\<close> equal characters occurs in a text when the longest run has length \<open>n\<close>.\<close>

lemma startswith_replicate:
  "startswith s (replicate n c) \<longleftrightarrow> n \<le> length (takeWhile (\<lambda>d. d = c) s)"
proof (induction s arbitrary: n)
  case Nil
  then show ?case by (cases n) auto
next
  case (Cons a s)
  then show ?case by (cases n) auto
qed

lemma contains_replicate:
  "contains s (replicate n c) \<longleftrightarrow> n \<le> longest_run c s"
proof (induction s)
  case Nil
  then show ?case by simp
next
  case (Cons a s)
  show ?case
    using Cons.IH startswith_replicate [of "a # s" n c] by (simp del: startswith.simps) linarith
qed

lemma longest_run_absent: "c \<notin> set s \<Longrightarrow> longest_run c s = 0"
  by (induction s) auto

text \<open>The comparisons of the source, on whole numbers.\<close>

lemma ratio_below:
  assumes "0 < n"
  shows "((of_nat m / of_nat n :: rat) < 7 / 10) \<longleftrightarrow> 10 * m < 7 * n"
proof -
  have "((of_nat m / of_nat n :: rat) < 7 / 10) \<longleftrightarrow> (of_nat (10 * m) :: rat) < of_nat (7 * n)"
    using assms by (simp add: field_simps)
  then show ?thesis by (simp only: of_nat_less_iff)
qed

lemma three_tenths:
  "((of_nat c :: rat) > of_nat n * (3 / 10)) \<longleftrightarrow> 3 * n < 10 * c"
proof -
  have "((of_nat c :: rat) > of_nat n * (3 / 10)) \<longleftrightarrow> (of_nat (3 * n) :: rat) < of_nat (10 * c)"
    by (simp add: field_simps)
  then show ?thesis by (simp only: of_nat_less_iff)
qed

lemma five_tenths:
  "((of_nat c :: rat) > of_nat n * (5 / 10)) \<longleftrightarrow> n < 2 * c"
proof -
  have "((of_nat c :: rat) > of_nat n * (5 / 10)) \<longleftrightarrow> (of_nat n :: rat) < of_nat (2 * c)"
    by (simp add: field_simps)
  then show ?thesis by (simp only: of_nat_less_iff)
qed

lemma is_text_garbled_iff:
  "is_text_garbled u s \<longleftrightarrow> garbled_as_listed u s \<or> contains s (py ''   '')"
proof (cases "length (strip u s) < 10")
  case True
  then show ?thesis by (simp add: is_text_garbled_def garbled_as_listed_def)
next
  case False
  then have ne: "s \<noteq> []" by (auto simp: strip_def)
  then have pos: "0 < length s" by simp
  have r: "(\<lambda>char. contains s (replicate 5 char)) = (\<lambda>c. 5 \<le> longest_run c s)"
    by (simp add: contains_replicate)
  show ?thesis
    using False ne
    unfolding is_text_garbled_def garbled_as_listed_def Let_def meaningful_count_def
      ratio_below [OF pos] three_tenths five_tenths r
    by auto
qed

text \<open>
  C5. \<open>is_text_garbled\<close> holds of a text exactly when one of the five listed conditions
  holds, or the text has three consecutive spaces: the last condition is not in the list.
  A text whose length after trimming is below 10 is garbled.
\<close>

theorem is_text_garbled_conditions:
  "(is_text_garbled u s \<longleftrightarrow> garbled_as_listed u s \<or> contains s (py ''   '')) \<and>
   (length (strip u s) < 10 \<longrightarrow> is_text_garbled u s)"
  using is_text_garbled_iff [of u s] by (auto simp: garbled_as_listed_def)

text \<open>A text of two letters between spaces.\<close>

theorem is_text_garbled_conditions_witness:
  "length (strip ascii_db (py '' ab  '')) < 10 \<and> is_text_garbled ascii_db (py '' ab  '')"
  using is_text_garbled_conditions [of ascii_db "py '' ab  ''"]
  by (simp add: strip_def isspace_def py_def garbled_as_listed_def)

text \<open>
  The text \<open>hello   world\<close>, with three spaces: none of the five listed conditions holds
  of it, and the function says that it is garbled.
\<close>

theorem three_spaces_garbled:
  "is_text_garbled ascii_db (py ''hello   world'') \<and>
   \<not> garbled_as_listed ascii_db (py ''hello   world'')"
proof -
  let ?s = "py ''hello   world''"
  have g: "is_text_garbled ascii_db ?s"
    unfolding is_text_garbled_iff by (simp add: py_def)
  have p1: "length (strip ascii_db ?s) = 13"
    by (simp add: strip_def isspace_def py_def)
  have p2: "meaningful_count ascii_db ?s = 13"
    by (simp add: meaningful_count_def isspace_def py_def isalnum_def isdigit_ascii_def
        isupper_ascii_def islower_ascii_def)
  have p3: "count_char ?s 32 = 3"
    by (simp add: count_char_def py_def)
  have p4: "length (filter (isupper ascii_db) ?s) = 0"
    by (simp add: isupper_def py_def isupper_ascii_def)
  have a: "\<forall>c \<in> set uppercase_letters. 65 \<le> c \<and> c \<le> 90"
    by (simp add: uppercase_letters_def py_def)
  have b: "\<forall>d \<in> set ?s. d < 65 \<or> 90 < d"
    by (simp add: py_def)
  have "\<forall>c \<in> set uppercase_letters. c \<notin> set ?s"
    using a b by fastforce
  then have "\<forall>c \<in> set uppercase_letters. longest_run c ?s = 0"
    using longest_run_absent by blast
  then have p5: "\<not> list_ex (\<lambda>c. 5 \<le> longest_run c ?s) uppercase_letters"
    by (simp add: list_ex_iff)
  have l: "length ?s = 13" by (simp add: py_def)
  have "\<not> garbled_as_listed ascii_db ?s"
    unfolding garbled_as_listed_def p1 p2 p3 p4 l using p5 by simp
  then show ?thesis using g by simp
qed

section \<open>The text post-processor: a second pass, and the table\<close>

text \<open>Substrings and prefixes.\<close>

lemma startswith_set: "startswith s n \<Longrightarrow> set n \<subseteq> set s"
  by (induction s n rule: startswith.induct) auto

lemma contains_set: "contains s n \<Longrightarrow> set n \<subseteq> set s"
proof (induction s)
  case Nil
  then show ?case by simp
next
  case (Cons a s)
  from Cons.prems have "startswith (a # s) n \<or> contains s n" by simp
  then show ?case
  proof
    assume "startswith (a # s) n"
    then show ?thesis by (rule startswith_set)
  next
    assume "contains s n"
    then have "set n \<subseteq> set s" by (rule Cons.IH)
    then show ?thesis by auto
  qed
qed



text \<open>\<open>replace\<close> leaves a text without the old string alone, and brings in no new character.\<close>

lemma replace_absent:
  "old \<noteq> [] \<Longrightarrow> \<not> contains s old \<Longrightarrow> replace_str s old new = s"
  by (induction s) auto

lemma replace_keeps_out:
  "c \<notin> set s \<Longrightarrow> c \<notin> set new \<Longrightarrow> c \<notin> set (replace_str s old new)"
proof (induction s old new rule: replace_str.induct)
  case (1 old new)
  then show ?case by simp
next
  case (2 d cs old new)
  show ?case
  proof (cases "old = []")
    case True
    then show ?thesis using 2 by simp
  next
    case ne: False
    show ?thesis
    proof (cases "startswith (d # cs) old")
      case True
      have "c \<notin> set (drop (length old) (d # cs))"
        using "2.prems"(1) in_set_dropD by fast
      then have "c \<notin> set (replace_str (drop (length old) (d # cs)) old new)"
        using "2.IH"(2) [OF ne True] "2.prems"(2) by blast
      then show ?thesis using ne True "2.prems"(2) by (simp del: drop.simps)
    next
      case False
      then show ?thesis using ne 2 by simp
    qed
  qed
qed

text \<open>The four patterns need a line feed, so they match nowhere in a text without one.\<close>

lemma m_seq_no_newline:
  "10 \<notin> set s \<Longrightarrow> m_seq u (pre @ Sym (Chr 10) # rest) prev s = []"
proof (induction pre arbitrary: prev s)
  case Nil
  then show ?case by (cases s) auto
next
  case (Cons i pre)
  have "m_seq u (pre @ Sym (Chr 10) # rest) q (drop k s) = []" for q k
    using Cons.prems in_set_dropD by (intro Cons.IH) fast
  then show ?case by (simp add: split_def)
qed

lemma m_seq_breaks:
  "10 \<notin> set s \<Longrightarrow> m_seq u pat_breaks prev s = []"
  by (cases s) (auto simp: pat_breaks_def)

lemma re_sub_from_no_match:
  assumes "\<And>prev s'. 10 \<notin> set s' \<Longrightarrow> m_seq u p prev s' = []"
  shows "10 \<notin> set s \<Longrightarrow> re_sub_from u p t prev s = s"
proof (induction s arbitrary: prev)
  case Nil
  then show ?case using assms [of "[]"] by simp
next
  case (Cons c cs)
  have "m_seq u p prev (c # cs) = []" using assms Cons.prems by blast
  moreover have "re_sub_from u p t (Some c) cs = cs" using Cons by simp
  ultimately show ?case by simp
qed

lemma re_sub_hyphen: "10 \<notin> set s \<Longrightarrow> re_sub u pat_hyphen t s = s"
proof -
  have "m_seq u pat_hyphen prev s' = []" if "10 \<notin> set s'" for prev s'
    using m_seq_no_newline [OF that, of u "[Group (Sym lower), Sym (Chr 45), Star Space]"
        "[Star Space, Group (Sym lower)]" prev]
    by (simp add: pat_hyphen_def)
  then show "10 \<notin> set s \<Longrightarrow> re_sub u pat_hyphen t s = s"
    unfolding re_sub_def by (rule re_sub_from_no_match)
qed

lemma re_sub_split: "10 \<notin> set s \<Longrightarrow> re_sub u pat_split t s = s"
proof -
  have "m_seq u pat_split prev s' = []" if "10 \<notin> set s'" for prev s'
    using m_seq_no_newline [OF that, of u "[Group (Sym lower), Star Space]"
        "[Star Space, Group (Sym lower)]" prev]
    by (simp add: pat_split_def)
  then show "10 \<notin> set s \<Longrightarrow> re_sub u pat_split t s = s"
    unfolding re_sub_def by (rule re_sub_from_no_match)
qed

lemma re_sub_sentence: "10 \<notin> set s \<Longrightarrow> re_sub u pat_sentence t s = s"
proof -
  have "m_seq u pat_sentence prev s' = []" if "10 \<notin> set s'" for prev s'
    using m_seq_no_newline [OF that, of u "[Group (Sym (Union lower (Chr 44))), Star Space]"
        "[Star Space, Group (Sym lower)]" prev]
    by (simp add: pat_sentence_def)
  then show "10 \<notin> set s \<Longrightarrow> re_sub u pat_sentence t s = s"
    unfolding re_sub_def by (rule re_sub_from_no_match)
qed

lemma re_sub_breaks: "10 \<notin> set s \<Longrightarrow> re_sub u pat_breaks t s = s"
proof -
  have "m_seq u pat_breaks prev s' = []" if "10 \<notin> set s'" for prev s'
    using that by (rule m_seq_breaks)
  then show "10 \<notin> set s \<Longrightarrow> re_sub u pat_breaks t s = s"
    unfolding re_sub_def by (rule re_sub_from_no_match)
qed

text \<open>
  The table is applied to a text only if the text contains the source of the pattern,
  backslashes included, as a substring.
\<close>

lemma apply_fix_inert:
  "\<not> contains s (pattern_text (py ''rn'')) \<Longrightarrow> \<not> contains s (pattern_text (py ''vv'')) \<Longrightarrow>
   fold (apply_fix u) ocr_fixes s = s"
  by (auto simp: apply_fix_def ocr_fixes_def Let_def)

lemma no_backslash_no_pattern: "92 \<notin> set s \<Longrightarrow> \<not> contains s (pattern_text w)"
  using contains_set [of s "pattern_text w"] by (auto simp: pattern_text_def)

lemma no_newline_no_pair:
  "10 \<notin> set s \<Longrightarrow> \<not> contains s [32, 10] \<and> \<not> contains s [10, 32]"
  using contains_set [of s "[32, 10]"] contains_set [of s "[10, 32]"] by auto

text \<open>
  On a text without line feed and without backslash, only the first replacement and the
  final \<open>strip\<close> do anything.
\<close>

lemma post_process_plain:
  assumes "10 \<notin> set x" and "92 \<notin> set x"
  shows "post_process_extracted_text u x = strip u (replace_str x [32, 32] [32])"
proof (cases "x = []")
  case True
  then show ?thesis by (simp add: post_process_extracted_text_def strip_def)
next
  case False
  let ?y = "replace_str x [32, 32] [32]"
  have n: "10 \<notin> set ?y" using assms(1) by (intro replace_keeps_out) simp_all
  have b: "92 \<notin> set ?y" using assms(2) by (intro replace_keeps_out) simp_all
  have r1: "replace_str ?y [32, 10] [10] = ?y"
    using no_newline_no_pair [OF n] by (intro replace_absent) simp_all
  have r2: "replace_str ?y [10, 32] [10] = ?y"
    using no_newline_no_pair [OF n] by (intro replace_absent) simp_all
  have f: "fold (apply_fix u) ocr_fixes ?y = ?y"
    using no_backslash_no_pattern [OF b] by (intro apply_fix_inert) simp_all
  have p: "py ''  '' = [32, 32]" "py '' '' = [32]" by (simp_all add: py_def)
  have "post_process_extracted_text u x =
      strip u (fold (apply_fix u) ocr_fixes
        (re_sub u pat_breaks [Lit [10, 10]]
          (re_sub u pat_sentence [Ref 1, Lit [32], Ref 2]
            (re_sub u pat_split [Ref 1, Ref 2]
              (re_sub u pat_hyphen [Ref 1, Ref 2]
                (replace_str (replace_str ?y [32, 10] [10]) [10, 32] [10]))))))"
    unfolding post_process_extracted_text_def Let_def p using False by (simp only: if_False)
  also have "\<dots> = strip u ?y"
    by (simp only: r1 r2 re_sub_hyphen [OF n] re_sub_split [OF n] re_sub_sentence [OF n]
        re_sub_breaks [OF n] f)
  finally show ?thesis .
qed













text \<open>
  With line feeds a second pass can change the text too: from \<open>a-\<close>, \<open>b-\<close> and \<open>c\<close> on
  three lines the first pass joins the first two, and the second pass joins the third.
\<close>

lemma post_process_line_breaks:
  "post_process_extracted_text ascii_db (py ''a-'' @ 10 # py ''b-'' @ 10 # py ''c'') =
     py ''ab-'' @ 10 # py ''c'' \<and>
   post_process_extracted_text ascii_db (py ''ab-'' @ 10 # py ''c'') = py ''abc''"
  by (simp add: post_process_extracted_text_def Let_def py_def re_sub_def pat_hyphen_def
      pat_split_def pat_sentence_def pat_breaks_def lower_def prev_after_def split_def
      apply_fix_def ocr_fixes_def pattern_text_def strip_def isspace_def)

text \<open>
  C2. The text \<open>a rn b\<close> has \<open>rn\<close> as a word of its own, and so has \<open>a vv b\<close> with \<open>vv\<close>. The
  post-processor returns both unchanged: the table is applied to a text only if the text
  contains the characters \<open>\brn\b\<close> or \<open>\bvv\b\<close> themselves, which these do not. The
  substitution that the condition guards would have given \<open>a m b\<close>.
\<close>

theorem digraph_table_not_applied:
  "post_process_extracted_text ascii_db (py ''a rn b'') = py ''a rn b'' \<and>
   post_process_extracted_text ascii_db (py ''a vv b'') = py ''a vv b'' \<and>
   \<not> contains (py ''a rn b'') (pattern_text (py ''rn'')) \<and>
   re_sub ascii_db (pattern_re (py ''rn'')) [Lit (py ''m'')] (py ''a rn b'') = py ''a m b''"
proof -
  have h1: "10 \<notin> set (py ''a rn b'')" "92 \<notin> set (py ''a rn b'')" by (simp_all add: py_def)
  have "post_process_extracted_text ascii_db (py ''a rn b'') =
      strip ascii_db (replace_str (py ''a rn b'') [32, 32] [32])"
    using h1 by (rule post_process_plain)
  also have "\<dots> = py ''a rn b''" by (simp add: py_def strip_def isspace_def)
  finally have 1: "post_process_extracted_text ascii_db (py ''a rn b'') = py ''a rn b''" .
  have h2: "10 \<notin> set (py ''a vv b'')" "92 \<notin> set (py ''a vv b'')" by (simp_all add: py_def)
  have "post_process_extracted_text ascii_db (py ''a vv b'') =
      strip ascii_db (replace_str (py ''a vv b'') [32, 32] [32])"
    using h2 by (rule post_process_plain)
  also have "\<dots> = py ''a vv b''" by (simp add: py_def strip_def isspace_def)
  finally have 2: "post_process_extracted_text ascii_db (py ''a vv b'') = py ''a vv b''" .
  have 3: "\<not> contains (py ''a rn b'') (pattern_text (py ''rn''))"
    using h1(2) by (rule no_backslash_no_pattern)
  have 4: "re_sub ascii_db (pattern_re (py ''rn'')) [Lit (py ''m'')] (py ''a rn b'') = py ''a m b''"
    by (simp add: re_sub_def pattern_re_def py_def is_word_def first_char_def prev_after_def
        isalnum_def isdigit_ascii_def isupper_ascii_def islower_ascii_def)
  show ?thesis using 1 2 3 4 by simp
qed

end
